theory Spec2Isabelle
  imports Main "HOL-Library.Sublist"
begin

section \<open>Python strings\<close>

text \<open>
  A Python \<open>str\<close> is modelled as a \<open>string\<close>: one \<open>char\<close> per code point (so the
  model covers the code points below 256), \<open>len\<close> is \<open>length\<close>.
\<close>

datatype py_exn = ValueError | TypeError | AttributeError | OSError | OtherError

text \<open>\<open>s.split(sep)\<close> for a one-character separator: never empty, one piece more than
  there are separators.\<close>

fun py_split :: "char \<Rightarrow> string \<Rightarrow> string list" where
  "py_split sep [] = [[]]"
| "py_split sep (c # cs) =
     (if c = sep then [] # py_split sep cs
      else (case py_split sep cs of [] \<Rightarrow> [[c]] | p # ps \<Rightarrow> (c # p) # ps))"

text \<open>\<open>sub in s\<close> for strings.\<close>

fun contains :: "string \<Rightarrow> string \<Rightarrow> bool" where
  "contains [] sub = (sub = [])"
| "contains (c # cs) sub = (prefix sub (c # cs) \<or> contains cs sub)"

text \<open>\<open>s.endswith(suf)\<close>, and \<open>s.endswith(tuple)\<close>.\<close>

definition endswith :: "string \<Rightarrow> string \<Rightarrow> bool" where
  "endswith s suf \<longleftrightarrow> length suf \<le> length s \<and> drop (length s - length suf) s = suf"

definition endswith_any :: "string \<Rightarrow> string list \<Rightarrow> bool" where
  "endswith_any s sufs = list_ex (endswith s) sufs"

text \<open>\<open>s[a:b]\<close> for \<open>0 \<le> a\<close> and \<open>0 \<le> b\<close>.\<close>

definition py_slice :: "nat \<Rightarrow> nat \<Rightarrow> string \<Rightarrow> string" where
  "py_slice a b s = drop a (take b s)"

text \<open>\<open>str(n)\<close> for a natural number.\<close>

function str_of_nat :: "nat \<Rightarrow> string" where
  "str_of_nat n =
     (if n < 10 then [''0123456789'' ! n]
      else str_of_nat (n div 10) @ [''0123456789'' ! (n mod 10)])"
  by pat_completeness auto
termination
  by (relation "measure id") auto

declare str_of_nat.simps [simp del]

text \<open>\<open>n.bit_length()\<close>: the number of binary digits of \<open>n\<close>.\<close>

function bit_length :: "nat \<Rightarrow> nat" where
  "bit_length n = (if n = 0 then 0 else Suc (bit_length (n div 2)))"
  by pat_completeness auto
termination
  by (relation "measure id") auto

declare bit_length.simps [simp del]

text \<open>The integer nearest to \<open>x / y\<close>, a tie going to the even one: the rounding of
  IEEE 754 arithmetic.\<close>

definition round_half_even :: "nat \<Rightarrow> nat \<Rightarrow> nat" where
  "round_half_even x y =
     (let d = x div y; r = x mod y
      in if 2 * r < y then d
         else if y < 2 * r then d + 1
         else if even d then d else d + 1)"

text \<open>\<open>math.ceil(a / b)\<close> for integers \<open>a \<ge> 0\<close> and \<open>b > 0\<close>. The division of two
  \<open>int\<close>s is the double nearest to the exact quotient: for a quotient in
  \<open>[2^e, 2^(e+1))\<close> that is a multiple \<open>m\<close> of \<open>2^(e-52)\<close> with \<open>m\<close> the quotient
  over \<open>2^(e-52)\<close> rounded half to even; \<open>ceil\<close> then rounds that double up to an
  integer. A quotient below 1 and above 0 gives a double in \<open>(0, 1]\<close>, whose ceiling is 1.
  (Quotients beyond the range of a double, above \<open>10^308\<close>, raise \<open>OverflowError\<close>; the
  model does not cover them.)\<close>

definition ceil_truediv :: "nat \<Rightarrow> nat \<Rightarrow> nat" where
  "ceil_truediv a b =
     (if a < b then (if a = 0 then 0 else 1)
      else
        (let e = bit_length (a div b) - 1
         in if e \<le> 52 then
              (let m = round_half_even (a * 2 ^ (52 - e)) b
               in (m + 2 ^ (52 - e) - 1) div 2 ^ (52 - e))
            else round_half_even a (b * 2 ^ (e - 52)) * 2 ^ (e - 52)))"

text \<open>The character class \<open>[A-Za-z0-9]\<close> and \<open>re.sub('[A-Za-z0-9]', '*', s)\<close>.\<close>

definition is_alnum :: "char \<Rightarrow> bool" where
  "is_alnum c \<longleftrightarrow>
     (let n = (of_char c :: nat)
      in (65 \<le> n \<and> n \<le> 90) \<or> (97 \<le> n \<and> n \<le> 122) \<or> (48 \<le> n \<and> n \<le> 57))"

definition mask_char :: "char \<Rightarrow> char" where
  "mask_char c = (if is_alnum c then CHR ''*'' else c)"

definition re_sub_alnum :: "string \<Rightarrow> string" where
  "re_sub_alnum s = map mask_char s"

section \<open>app/services/data\_analysis\_service.py\<close>

text \<open>\<open>DataAnalysisService._get_region\<close>.\<close>

definition get_region :: "string \<Rightarrow> string" where
  "get_region entity_type =
     (if take 2 entity_type = ''US'' then ''USA''
      else if take 2 entity_type = ''IN'' then ''India''
      else ''All'')"

text \<open>\<open>DataAnalysisService.hash_data\<close>:
  \<open>hashlib.sha384(data.encode('utf-8')).hexdigest()\<close>. The digest is the library's; it is
  the parameter \<open>sha384\<close>, from the text to its hexadecimal digest.\<close>

definition hash_data :: "(string \<Rightarrow> string) \<Rightarrow> string \<Rightarrow> string" where
  "hash_data sha384 data = sha384 data"

text \<open>The body of the \<open>try\<close> block of \<open>DataAnalysisService.mask_data\<close>: \<open>Inl\<close> is the
  exception that leaves the block, \<open>Inr\<close> the value of \<open>data\<close> (or the early
  \<open>return ''\<close>) when the block completes. The unpacking
  \<open>username, domain = data.split('@')\<close> raises \<open>ValueError\<close> unless the split has exactly
  two pieces.\<close>

definition mask_data_try :: "string \<Rightarrow> string \<Rightarrow> py_exn + string" where
  "mask_data_try entity data =
     (if data = [] then Inr []
      else if contains entity ''EMAIL'' \<and> CHR ''@'' \<in> set data then
        (case py_split CHR ''@'' data of
           [username, domain] \<Rightarrow>
             if entity = ''EMAIL_ADDRESS'' then
               (let domain' = last (py_split CHR ''.'' domain)
                in Inr (take 1 data
                        @ re_sub_alnum (py_slice 1 (length data - length domain') data)
                        @ domain'))
             else
               Inr (take 2 data
                    @ re_sub_alnum (py_slice 2 (length data - length domain) data)
                    @ domain)
         | _ \<Rightarrow> Inl ValueError)
      else if entity = ''US_SSN'' \<or> entity = ''PERSON'' then
        (if length data \<le> 4 then Inr (take 1 data @ re_sub_alnum (drop 1 data))
         else if 4 < length data \<and> length data \<le> 6 then
           Inr (take 2 data @ re_sub_alnum (drop 2 data))
         else
           Inr (take 2 data
                @ re_sub_alnum (py_slice 2 (length data - 2) data)
                @ drop (length data - 2) data))
      else Inr (re_sub_alnum data))"

text \<open>\<open>DataAnalysisService.mask_data\<close>: \<open>except Exception\<close> logs and falls through to
  \<open>return data\<close>, where \<open>data\<close> is still the argument.\<close>

definition mask_data :: "string \<Rightarrow> string \<Rightarrow> string" where
  "mask_data entity data =
     (case mask_data_try entity data of Inl e \<Rightarrow> data | Inr masked \<Rightarrow> masked)"

text \<open>The finding built by one iteration of \<open>DataAnalysisService._process_data\<close>. The
  random \<open>id\<close> and the rounded floating-point \<open>score\<close> are left out.\<close>

record file_data =
  file_name :: string
  pii_type :: string
  pii_region :: string
  is_custom_regex :: bool
  pii_hash :: string
  pii_data :: string
  column_name :: "string option"

text \<open>\<open>recognizer = self.id_name_mapper.get(_id)\<close> may be \<open>None\<close>; then
  \<open>_get_region(None)\<close> raises \<open>TypeError\<close>.\<close>

definition process_result ::
  "(string \<Rightarrow> string) \<Rightarrow> (nat \<rightharpoonup> string) \<Rightarrow> string list \<Rightarrow> string \<Rightarrow> string option
     \<Rightarrow> nat \<times> string \<Rightarrow> py_exn + file_data" where
  "process_result sha384 id_name_mapper system_entities object_name column = (\<lambda>(i, val).
     (case id_name_mapper i of
        None \<Rightarrow> Inl TypeError
      | Some recognizer \<Rightarrow>
          Inr \<lparr>file_name = object_name,
               pii_type = recognizer,
               pii_region = get_region recognizer,
               is_custom_regex = (recognizer \<notin> set system_entities),
               pii_hash = hash_data sha384 val,
               pii_data = mask_data recognizer val,
               column_name = column\<rparr>))"

text \<open>The top-level domain of a mail address, in the words of the specification: what
  follows the last dot of the domain, that is the longest suffix of the address with no dot
  and no at-sign.\<close>

definition tld_of :: "string \<Rightarrow> string" where
  "tld_of addr = rev (takeWhile (\<lambda>c. c \<noteq> CHR ''.'' \<and> c \<noteq> CHR ''@'') (rev addr))"

section \<open>app/send\_request.py\<close>

datatype http_method = GET | POST | PUT | PATCH | DELETE

text \<open>What the server answers to one request: a status with the body decoded by
  \<open>response.json()\<close> (\<open>None\<close> when decoding raises), or no answer at all (the request
  itself raises).\<close>

datatype 'j http_response = Response nat "'j option" | RequestError

record 'd request =
  req_method :: http_method
  req_url :: string
  req_data :: 'd

text \<open>What the client has done so far: requests sent, seconds spent in
  \<open>asyncio.sleep\<close>, calls of \<open>refresh_shared_secret\<close>.\<close>

record client_effects =
  requests_sent :: nat
  seconds_slept :: nat
  token_refreshes :: nat

text \<open>
  \<open>make_request\<close>. The server is a function from the number of requests already sent and
  the request to the answer. The recursive calls pass \<open>method\<close>, \<open>base_url\<close> and
  \<open>request_data\<close> again, so the request is the same one; after a 401 the attempt counter
  grows, after a 424 or a status above 500 the call leaves it out and it restarts at 0.
  Every exception inside the \<open>try\<close> block is logged and the function returns \<open>None\<close>;
  on the retry branch the body is decoded for the log line before the sleep.

  Each retry is a call nested in the \<open>try\<close> block of the one before
  (\<open>return await make_request(...)\<close>), so the retries are bounded by the depth of calls
  that Python allows: \<open>depth\<close> is the number of nested calls of \<open>make_request\<close> that the
  recursion limit of the interpreter leaves room for (about 1000 frames by default). The
  call that does not fit raises \<open>RecursionError\<close>, which is an \<open>Exception\<close>: it is logged
  by the handler and the result is \<open>None\<close>, all the way up. The model places that
  exception at the entry of the call that does not fit.
\<close>

fun make_request ::
  "nat \<Rightarrow> (nat \<Rightarrow> 'd request \<Rightarrow> 'j http_response) \<Rightarrow> 'd request \<Rightarrow> nat \<Rightarrow> client_effects
     \<Rightarrow> 'j option \<times> client_effects" where
  "make_request 0 server req attempt eff = (None, eff)"
| "make_request (Suc depth) server req attempt eff =
     (let eff1 = eff\<lparr>requests_sent := Suc (requests_sent eff)\<rparr> in
      case server (requests_sent eff) req of
        RequestError \<Rightarrow> (None, eff1)
      | Response status body \<Rightarrow>
          if status = 404 \<or> status = 422 then (None, eff1)
          else if status = 401 then
            (if attempt = 2 then (None, eff1)
             else make_request depth server req (attempt + 1)
                    (eff1\<lparr>token_refreshes := Suc (token_refreshes eff1)\<rparr>))
          else if status = 424 \<or> status > 500 then
            (case body of
               None \<Rightarrow> (None, eff1)
             | Some b \<Rightarrow> make_request depth server req 0
                    (eff1\<lparr>seconds_slept := Suc (seconds_slept eff1)\<rparr>))
          else (case body of None \<Rightarrow> (None, eff1) | Some b \<Rightarrow> (Some b, eff1)))"

section \<open>app/schemas/file\_data.py\<close>

text \<open>A \<open>datetime\<close> is a natural number (a timestamp), a UUID is a string.\<close>

datatype file_status =
  IGNORED | WAIT_FOR_SCAN | RESCAN_IN_PROGRESS | SCANNED | IN_PROGRESS | SKIPPED | FAILED

text \<open>\<open>DataChunk\<close>. The offset is a string, as in the schema.\<close>

record data_chunk =
  dc_object_name :: "string option"
  dc_fetch_path :: "string option"
  dc_offset :: "string option"
  dc_limit :: "nat option"
  dc_scanned_at :: "nat option"
  dc_status :: file_status
  dc_hash :: "string option"
  dc_instance_id :: "string option"
  dc_labels :: "string list option"
  dc_latest_data_type :: "nat option"

text \<open>\<open>DataChunkUpdate\<close>: every field defaults to \<open>None\<close>, \<open>sensitive_data\<close> to \<open>[]\<close>.\<close>

record data_chunk_update =
  cu_id :: "string option"
  cu_object_name :: "string option"
  cu_fetch_path :: "string option"
  cu_offset :: "string option"
  cu_limit :: "nat option"
  cu_scanned_at :: "nat option"
  cu_is_phi :: "bool option"
  cu_status :: "file_status option"
  cu_hash :: "string option"
  cu_sensitive_data :: "file_data list"
  cu_metadata_id :: "string option"
  cu_instance_id :: "string option"
  cu_latest_data_type :: "nat option"

definition empty_chunk_update :: data_chunk_update where
  "empty_chunk_update =
     \<lparr>cu_id = None, cu_object_name = None, cu_fetch_path = None, cu_offset = None,
      cu_limit = None, cu_scanned_at = None, cu_is_phi = None, cu_status = None,
      cu_hash = None, cu_sensitive_data = [], cu_metadata_id = None, cu_instance_id = None,
      cu_latest_data_type = None\<rparr>"

text \<open>What a connector's \<open>fetch_data\<close> returns: \<open>None\<close>, a text, or a pandas dataframe
  (its columns by name, a cell being a value or NaN).\<close>

datatype cell = NaN | Cell string

type_synonym dataframe = "(string \<times> cell list) list"

datatype py_data = PyNone | PyStr string | PyDataFrame dataframe

text \<open>\<open>ObjectContents\<close>, with the fields the scan and the discovery read or write; the
  ownership, ACL and date fields are carried along unchanged by the code and left out.\<close>

record object_contents =
  oc_full_path :: string
  oc_object_name :: string
  oc_size :: nat
  oc_fetch_path :: string
  oc_etag :: string
  oc_status :: "file_status option"
  oc_data :: py_data
  oc_data_chunks :: "data_chunk list"
  oc_current_chunk :: "data_chunk_update option"

text \<open>A JSON value decoded by \<open>response.json()\<close>, and Python's truth value of it;
  \<open>None\<close> is false.\<close>

datatype json =
  JNull | JBool bool | JNum int | JStr string | JArr "json list" | JObj "(string \<times> json) list"



text \<open>\<open>str(x)\<close> for an optional string, as an f-string or pydantic's \<open>str(value)\<close>
  renders it.\<close>

definition py_str_opt :: "string option \<Rightarrow> string" where
  "py_str_opt x = (case x of None \<Rightarrow> ''None'' | Some s \<Rightarrow> s)"

text \<open>\<open>int(s)\<close> on the decimal strings that \<open>str(i * capacity)\<close> writes; any other
  string is taken to raise \<open>ValueError\<close>.\<close>

definition is_digit :: "char \<Rightarrow> bool" where
  "is_digit c \<longleftrightarrow> 48 \<le> (of_char c :: nat) \<and> (of_char c :: nat) \<le> 57"

definition py_int :: "string \<Rightarrow> py_exn + nat" where
  "py_int s =
     (if s \<noteq> [] \<and> list_all is_digit s
      then Inr (foldl (\<lambda>a c. 10 * a + (of_char c - 48)) 0 s)
      else Inl ValueError)"

section \<open>Requests to the control plane and other observable steps\<close>

text \<open>The update parameters of the batch reset in
  \<open>update_metadata_existing_chunks\<close>.\<close>

record chunk_reset =
  up_object_size :: nat
  up_scanned_at :: "nat option"
  up_instance_id :: string
  up_labels :: "string list option"
  up_hash :: "string option"
  up_status :: file_status

text \<open>What a run does that can be seen from outside, in order: the requests it sends
  to the control plane, the fetches it asks of the connector, and the calls of the
  classifier pipeline.
  \<^item> \<open>Patch_Chunk update filter\<close>: PATCH \<open>customer_account/data-chunks\<close>;
  \<^item> \<open>Put_Chunk chunk\<close>: PUT \<open>customer_account/data-chunks\<close>;
  \<^item> \<open>Post_Sensitive_Data metadata_id chunk_id findings\<close>: POST
    \<open>customer_account/sensitive-data\<close>;
  \<^item> \<open>Put_Last_Scanned time\<close>: PUT \<open>customer_account/data_classification_last_scanned\<close>;
  \<^item> \<open>Delete_Metadata ids\<close>: DELETE \<open>customer_account/delete-batch-metadata\<close>;
  \<^item> \<open>Delete_Chunks ids\<close>, \<open>Patch_Chunks_Batch metadata_id ids params\<close> and
    \<open>Post_Chunks_Batch metadata_id size status chunks\<close>: DELETE, PATCH and POST
    \<open>customer_account/data-chunks-batch\<close>;
  \<^item> \<open>Get_Cloud_Account account_id\<close>: GET \<open>customer_account/cloud-account\<close>, the
    credentials of the account;
  \<^item> \<open>Fetch_Data fetch_path chunk_path limit offset\<close>: the connector's \<open>fetch_data\<close>;
  \<^item> \<open>Compile_Patterns\<close>, \<open>Phi_Probe name data\<close>, \<open>Scan_File_Object data\<close>: the calls
    of \<open>compile_hyperscan_patterns\<close>, \<open>is_phi_in_file_data\<close> and \<open>scan_file_object\<close>.
\<close>

datatype event =
    Patch_Chunk data_chunk_update data_chunk_update
  | Put_Chunk data_chunk_update
  | Post_Sensitive_Data "string option" "string option" "file_data list"
  | Put_Last_Scanned nat
  | Delete_Metadata "string list"
  | Delete_Chunks "string list"
  | Patch_Chunks_Batch string "string list" chunk_reset
  | Post_Chunks_Batch string nat file_status "data_chunk list"
  | Get_Cloud_Account string
  | Fetch_Data string "string option" "nat option" nat
  | Compile_Patterns
  | Phi_Probe string py_data
  | Scan_File_Object py_data

section \<open>app/services/base\_scan\_service.py: the scan of one chunk\<close>

text \<open>What a scan of one chunk depends on: the scanner and the analyzer attributes, the
  value \<open>send_request\<close> returns for the lease, the connector's \<open>fetch_data\<close> (which may
  raise), the PHI pattern search, the batches that \<open>scan_file_object\<close> yields, and the
  clock.\<close>

record scan_env =
  se_scanner_id :: string
  se_latest_data_type :: "nat option"
  se_rescan_mode :: bool
  se_has_hyperscan :: bool
  se_update_result :: "json option"
  se_fetch :: "string \<Rightarrow> string option \<Rightarrow> nat option \<Rightarrow> nat \<Rightarrow> py_exn + py_data"
  se_is_phi :: "string \<Rightarrow> py_data \<Rightarrow> bool"
  se_scan :: "py_data \<Rightarrow> file_data list list"
  se_now :: nat

text \<open>\<open>BaseScanService.hash_data_chunk\<close>: the MD5 digest of the text, or of the
  dataframe rendered by \<open>to_string(index=False)\<close>; both are the libraries' and are
  parameters. No function of the repository calls it.\<close>

definition hash_data_chunk ::
  "(string \<Rightarrow> string) \<Rightarrow> (dataframe \<Rightarrow> string) \<Rightarrow> py_data \<Rightarrow> py_exn + string" where
  "hash_data_chunk md5 to_string chunk =
     (case chunk of
        PyDataFrame df \<Rightarrow> Inr (md5 (to_string df))
      | PyStr s \<Rightarrow> Inr (md5 s)
      | PyNone \<Rightarrow> Inl AttributeError)"

text \<open>\<open>BaseScanService.is_not_valid_chunk\<close>. The second disjunct is
  \<open>isinstance(chunk, DataFrame) and not chunk.bool\<close>: \<open>chunk.bool\<close> is not called, it is
  the bound method object, and a method object is true whatever the dataframe holds.\<close>

definition dataframe_bool_method_truth :: "dataframe \<Rightarrow> bool" where
  "dataframe_bool_method_truth df = True"

definition is_not_valid_chunk :: "py_data \<Rightarrow> bool" where
  "is_not_valid_chunk chunk \<longleftrightarrow>
     (case chunk of PyStr s \<Rightarrow> s = [] | _ \<Rightarrow> False)
     \<or> (case chunk of PyDataFrame df \<Rightarrow> \<not> dataframe_bool_method_truth df | _ \<Rightarrow> False)
     \<or> (case chunk of PyNone \<Rightarrow> True | _ \<Rightarrow> False)"


text \<open>\<open>BaseScanService.save_chunk\<close>: the PUT of
  \<open>DataChunkUpdate(scanned_at=utcnow(), status=SCANNED, **current_chunk.dict(exclude_none,
  exclude={status, scanned_at, sensitive_data}))\<close>. Every other field is the current
  chunk's; a failure of the request is logged.\<close>

definition save_chunk :: "nat \<Rightarrow> data_chunk_update \<Rightarrow> event list" where
  "save_chunk now current_chunk =
     [Put_Chunk (current_chunk\<lparr>cu_scanned_at := Some now, cu_status := Some SCANNED,
                               cu_sensitive_data := []\<rparr>)]"

text \<open>\<open>BaseScanService.analyze_content_data\<close>: the steps taken, and the exception that
  leaves the function if one does.\<close>

definition analyze_content_data :: "scan_env \<Rightarrow> object_contents \<Rightarrow> event list \<times> py_exn option" where
  "analyze_content_data env content =
     (case oc_current_chunk content of
        None \<Rightarrow> ([], Some AttributeError)
      | Some chunk \<Rightarrow>
          (case cu_offset chunk of
             None \<Rightarrow> ([], Some TypeError)
           | Some off \<Rightarrow>
               (case py_int off of
                  Inl e \<Rightarrow> ([], Some e)
                | Inr offset \<Rightarrow>
                    (let fetched = Fetch_Data (oc_fetch_path content) (cu_fetch_path chunk)
                                     (cu_limit chunk) offset
                     in case se_fetch env (oc_fetch_path content) (cu_fetch_path chunk)
                               (cu_limit chunk) offset of
                          Inl e \<Rightarrow> ([fetched], Some e)
                        | Inr data \<Rightarrow>
                            if is_not_valid_chunk data
                            then (fetched # save_chunk (se_now env) chunk, None)
                            else
                              (let chunk1 = (if se_rescan_mode env
                                             then chunk\<lparr>cu_hash := None\<rparr> else chunk);
                                   chunk2 = chunk1\<lparr>cu_is_phi :=
                                     Some (se_is_phi env (oc_object_name content) data)\<rparr>
                               in (fetched
                                   # Phi_Probe (oc_object_name content) data
                                   # Scan_File_Object data
                                   # map (Post_Sensitive_Data (cu_metadata_id chunk2)
                                            (cu_id chunk2))
                                       (filter (\<lambda>batch. batch \<noteq> []) (se_scan env data))
                                   @ save_chunk (se_now env) chunk2, None))))))"

section \<open>app/services/mapper.py and the entry of a service\<close>

text \<open>\<open>ServicesMapper\<close>: the services a scanner can be started for.\<close>

datatype supported_service =
  S3 | REDSHIFT | SNOWFLAKE | RDS | DynamoDB | DocumentDB | GitHub | BitBucket | GitLab




section \<open>app/worker\_tasks/multiprocessing\_tasks.py\<close>


text \<open>A chunk as the control plane hands it out for its first scan, an object that holds
  it, and a scan environment: the lease succeeds, the connector returns a text, no
  classifier matches.\<close>

definition example_chunk :: data_chunk_update where
  "example_chunk =
     empty_chunk_update\<lparr>cu_id := Some ''c-1'', cu_fetch_path := Some ''bucket/notes.txt'',
       cu_offset := Some ''0'', cu_limit := Some 1000000,
       cu_status := Some WAIT_FOR_SCAN, cu_metadata_id := Some ''m-1''\<rparr>"

definition example_content :: object_contents where
  "example_content =
     \<lparr>oc_full_path = ''bucket/notes.txt'', oc_object_name = ''notes.txt'', oc_size = 11,
      oc_fetch_path = ''bucket/notes.txt'', oc_etag = ''e1'',
      oc_status = Some WAIT_FOR_SCAN, oc_data = PyNone, oc_data_chunks = [],
      oc_current_chunk = Some example_chunk\<rparr>"

definition example_env :: "py_data \<Rightarrow> json option \<Rightarrow> scan_env" where
  "example_env data update_result =
     \<lparr>se_scanner_id = ''i-0abc'', se_latest_data_type = Some 5, se_rescan_mode = False,
      se_has_hyperscan = True, se_update_result = update_result,
      se_fetch = (\<lambda>fetch_path chunk_path limit offset. Inr data),
      se_is_phi = (\<lambda>name d. False),
      se_scan = (\<lambda>d. [[]]),
      se_now = 42\<rparr>"


section \<open>app/services/file\_service.py\<close>

definition ARCHIVE_EXTENSIONS :: "string list" where
  "ARCHIVE_EXTENSIONS = [''.zip'', ''.tar'', ''.tar.gz'', ''.tar.bz2'']"

definition CONTAINER_TYPES :: "string list" where
  "CONTAINER_TYPES = [''.csv'', ''.doc'', ''.docx'', ''.xlsx'', ''.xls'', ''.pdf'']"

text \<open>\<open>settings.UNSUPPORTED_EXTENSIONS\<close> and \<open>settings.CHUNK_BYTES_CAPACITY\<close>
  (app/core/config.py).\<close>

definition UNSUPPORTED_EXTENSIONS :: "string list" where
  "UNSUPPORTED_EXTENSIONS =
     [''.png'', ''.jpg'', ''.jpeg'', ''.gif'', ''.bmp'', ''.svg'', ''.tif'', ''.tiff'',
      ''.ico'', ''.mbox'', ''.webm'']"

definition CHUNK_BYTES_CAPACITY :: nat where
  "CHUNK_BYTES_CAPACITY = 1000000"

text \<open>The bytes of an object, as far as the code looks into them: a zip archive or a tar
  archive (plain or compressed) with its members, each a name, its uncompressed size and
  its own bytes; or other bytes, with their length and whether they start with \<open>PK\<close>.
  A zip archive starts with \<open>PK\<close>.\<close>

datatype py_bytes =
    Zip_Data "(string \<times> nat \<times> py_bytes) list"
  | Tar_Data "(string \<times> nat \<times> py_bytes) list"
  | Plain_Data nat bool

fun starts_with_pk :: "py_bytes \<Rightarrow> bool" where
  "starts_with_pk (Zip_Data ms) = True"
| "starts_with_pk (Tar_Data ms) = False"
| "starts_with_pk (Plain_Data n pk) = pk"

text \<open>\<open>not object_data\<close> for an optional \<open>bytes\<close>.\<close>

fun no_bytes :: "py_bytes option \<Rightarrow> bool" where
  "no_bytes None = True"
| "no_bytes (Some (Plain_Data n pk)) = (n = 0)"
| "no_bytes (Some _) = False"

text \<open>\<open>FileService.get_uncompressed_size\<close>, with the loop over the members as
  \<open>members_size\<close>. \<open>ZipFile\<close> and \<open>tarfile.open\<close> raise on bytes that are not such an
  archive.\<close>

fun get_uncompressed_size :: "string \<Rightarrow> py_bytes \<Rightarrow> py_exn + nat"
  and members_size :: "(string \<times> nat \<times> py_bytes) list \<Rightarrow> py_exn + nat" where
  "get_uncompressed_size full_path (Zip_Data ms) =
     (if endswith full_path ''.zip'' \<or> starts_with_pk (Zip_Data ms) then members_size ms
      else if endswith_any full_path [''.tar'', ''.tar.gz'', ''.tar.bz2''] then Inl OtherError
      else Inr 0)"
| "get_uncompressed_size full_path (Tar_Data ms) =
     (if endswith full_path ''.zip'' \<or> starts_with_pk (Tar_Data ms) then Inl OtherError
      else if endswith_any full_path [''.tar'', ''.tar.gz'', ''.tar.bz2''] then members_size ms
      else Inr 0)"
| "get_uncompressed_size full_path (Plain_Data n pk) =
     (if endswith full_path ''.zip'' \<or> starts_with_pk (Plain_Data n pk) then Inl OtherError
      else if endswith_any full_path [''.tar'', ''.tar.gz'', ''.tar.bz2''] then Inl OtherError
      else Inr 0)"
| "members_size [] = Inr 0"
| "members_size ((name, file_size, nested_data) # ms) =
     (case (if endswith_any name ARCHIVE_EXTENSIONS
            then get_uncompressed_size name nested_data else Inr 0) of
        Inl e \<Rightarrow> Inl e
      | Inr nested \<Rightarrow>
          (case members_size ms of
             Inl e \<Rightarrow> Inl e
           | Inr others \<Rightarrow> Inr (file_size + nested + others)))"

text \<open>\<open>check_archive_size\<close> (app/services/utils/disk\_usage.py), with the free space of
  \<open>psutil.disk_usage('/')\<close> as an argument.\<close>

definition check_archive_size :: "nat \<Rightarrow> nat \<Rightarrow> bool" where
  "check_archive_size free sz = (if free > sz then True else False)"

text \<open>\<open>FileService.check_archive_memory_cost\<close>: \<open>None\<close> when the estimate raises (the
  exception is logged).\<close>

definition check_archive_memory_cost :: "nat \<Rightarrow> string \<Rightarrow> py_bytes \<Rightarrow> bool option" where
  "check_archive_memory_cost free full_path object_data =
     (case get_uncompressed_size full_path object_data of
        Inl e \<Rightarrow> None
      | Inr uncompressed_size \<Rightarrow> Some (check_archive_size free uncompressed_size))"

text \<open>What the file service depends on: the local disk (\<open>os.path.exists\<close>, the bytes of
  a local file, \<open>os.path.getsize\<close>), the connector's \<open>read_data\<close>, \<open>get_content_size\<close>
  (the size of the extracted text of a container file; it may raise), the files that
  \<open>unpack_archive_locally\<close> yields, the free disk space at start-up
  (\<open>settings.INITIAL_DISK_SPACE\<close>) and now, and the scanner id.\<close>

record file_env =
  fe_exists :: "string \<Rightarrow> bool"
  fe_local_bytes :: "string \<Rightarrow> py_bytes"
  fe_getsize :: "string \<Rightarrow> py_exn + nat"
  fe_read_data :: "string \<Rightarrow> py_bytes option"
  fe_content_size :: "py_bytes \<Rightarrow> string \<Rightarrow> py_exn + nat"
  fe_unpack :: "string \<Rightarrow> py_bytes \<Rightarrow> (string \<times> string) list"
  fe_initial_disk_space :: nat
  fe_free_disk :: nat
  fe_scanner_id :: string

text \<open>\<open>s.rsplit(sep)[-1]\<close>: what follows the rightmost occurrence of \<open>sep\<close>, the whole
  string when there is none.\<close>

definition rsplit_last :: "string \<Rightarrow> string \<Rightarrow> string" where
  "rsplit_last sep s =
     (case filter (\<lambda>k. prefix sep (drop k s)) (rev [0..<Suc (length s)]) of
        [] \<Rightarrow> s
      | k # _ \<Rightarrow> drop (k + length sep) s)"

text \<open>The chunk that \<open>create_file_chunks\<close> builds for index \<open>i\<close>.\<close>

definition file_chunk :: "file_env \<Rightarrow> string \<Rightarrow> nat \<Rightarrow> data_chunk" where
  "file_chunk env fetch_path i =
     \<lparr>dc_object_name = Some (rsplit_last ''::'' fetch_path),
      dc_fetch_path = Some fetch_path,
      dc_offset = Some (str_of_nat (i * CHUNK_BYTES_CAPACITY)),
      dc_limit = Some CHUNK_BYTES_CAPACITY,
      dc_scanned_at = None,
      dc_status = WAIT_FOR_SCAN,
      dc_hash = None,
      dc_instance_id = Some (fe_scanner_id env),
      dc_labels = None,
      dc_latest_data_type = None\<rparr>"

text \<open>\<open>FileService.create_file_chunks\<close>. The number of chunks is
  \<open>ceil(size / settings.CHUNK_BYTES_CAPACITY)\<close>, a division in floating point.\<close>

definition create_file_chunks ::
  "file_env \<Rightarrow> string \<Rightarrow> string \<Rightarrow> nat \<Rightarrow> py_exn + data_chunk list" where
  "create_file_chunks env fetch_path object_name sz =
     (if endswith_any object_name UNSUPPORTED_EXTENSIONS then Inr []
      else
        (case (if endswith_any fetch_path CONTAINER_TYPES then
                 (if fe_exists env fetch_path
                  then map_sum id Some (fe_content_size env (fe_local_bytes env fetch_path) object_name)
                  else (case fe_read_data env fetch_path of
                          None \<Rightarrow> Inr None
                        | Some object_data \<Rightarrow>
                            if no_bytes (Some object_data) then Inr None
                            else map_sum id Some (fe_content_size env object_data object_name)))
               else Inr (Some sz)) of
           Inl e \<Rightarrow> Inl e
         | Inr None \<Rightarrow> Inr []
         | Inr (Some sz') \<Rightarrow>
             if sz' = 0 then Inr []
             else Inr (map (file_chunk env fetch_path)
                         [0..<ceil_truediv sz' CHUNK_BYTES_CAPACITY])))"

text \<open>The loop of \<open>collect_file_chunks\<close> over the unpacked files: the chunks of each, in
  order; an exception of \<open>os.path.getsize\<close> or of \<open>create_file_chunks\<close> ends it.\<close>

fun unpacked_chunks :: "file_env \<Rightarrow> (string \<times> string) list \<Rightarrow> py_exn + data_chunk list" where
  "unpacked_chunks env [] = Inr []"
| "unpacked_chunks env ((fetch_path, object_name) # files) =
     (case fe_getsize env fetch_path of
        Inl e \<Rightarrow> Inl e
      | Inr sz \<Rightarrow>
          (case create_file_chunks env fetch_path object_name sz of
             Inl e \<Rightarrow> Inl e
           | Inr chunks \<Rightarrow>
               (case unpacked_chunks env files of
                  Inl e \<Rightarrow> Inl e
                | Inr further \<Rightarrow> Inr (chunks @ further))))"

text \<open>\<open>FileService.collect_file_chunks\<close>: \<open>None\<close> is the Python \<open>None\<close> (the callers then
  leave the object out of this discovery).\<close>

definition collect_file_chunks :: "file_env \<Rightarrow> object_contents \<Rightarrow> object_contents option" where
  "collect_file_chunks env content =
     (if oc_size content = 0 then Some (content\<lparr>oc_status := Some SCANNED\<rparr>)
      else if endswith_any (oc_fetch_path content) ARCHIVE_EXTENSIONS then
        (if oc_size content \<ge> fe_initial_disk_space env
         then Some (content\<lparr>oc_status := Some SKIPPED\<rparr>)
         else
           (case fe_read_data env (oc_fetch_path content) of
              None \<Rightarrow> None
            | Some object_data \<Rightarrow>
                if no_bytes (Some object_data) then None
                else if check_archive_memory_cost (fe_free_disk env) (oc_full_path content)
                          object_data \<noteq> Some True
                then None
                else
                  (case unpacked_chunks env (fe_unpack env (oc_full_path content) object_data) of
                     Inl e \<Rightarrow> Some (content\<lparr>oc_status := Some FAILED\<rparr>)
                   | Inr data_chunks \<Rightarrow>
                       Some (if data_chunks = []
                             then content\<lparr>oc_data_chunks := data_chunks,
                                          oc_status := Some SCANNED\<rparr>
                             else content\<lparr>oc_data_chunks := data_chunks\<rparr>))))
      else
        (case create_file_chunks env (oc_fetch_path content) (oc_object_name content)
                (oc_size content) of
           Inl e \<Rightarrow> Some (content\<lparr>oc_status := Some FAILED\<rparr>)
         | Inr data_chunks \<Rightarrow>
             Some (if data_chunks = []
                   then content\<lparr>oc_data_chunks := data_chunks, oc_status := Some SCANNED\<rparr>
                   else content\<lparr>oc_data_chunks := data_chunks\<rparr>)))"

text \<open>A file environment with nothing on the local disk, and discovered objects with no
  chunks yet.\<close>

definition example_file_env :: "(string \<Rightarrow> py_bytes option) \<Rightarrow> nat \<Rightarrow> file_env" where
  "example_file_env read_data free =
     \<lparr>fe_exists = (\<lambda>p. False),
      fe_local_bytes = (\<lambda>p. Plain_Data 0 False),
      fe_getsize = (\<lambda>p. Inl OSError),
      fe_read_data = read_data,
      fe_content_size = (\<lambda>b n. Inr 0),
      fe_unpack = (\<lambda>p b. []),
      fe_initial_disk_space = free,
      fe_free_disk = free,
      fe_scanner_id = ''i-0abc''\<rparr>"

definition discovered :: "string \<Rightarrow> nat \<Rightarrow> object_contents" where
  "discovered name sz =
     \<lparr>oc_full_path = ''bucket/'' @ name, oc_object_name = name, oc_size = sz,
      oc_fetch_path = name, oc_etag = ''e1'', oc_status = Some WAIT_FOR_SCAN,
      oc_data = PyNone, oc_data_chunks = [], oc_current_chunk = None\<rparr>"

text \<open>An archive \<open>logs.tar.gz\<close> of 1000 bytes that holds a text of 3000 bytes and a zip
  of 500 bytes, the zip holding a text of 9000 bytes: 12500 bytes uncompressed, nested
  archives included.\<close>

definition example_archive :: py_bytes where
  "example_archive =
     Tar_Data [(''a.txt'', 3000, Plain_Data 3000 False),
               (''inner.zip'', 500, Zip_Data [(''b.txt'', 9000, Plain_Data 9000 False)])]"

section \<open>The chunk plans of tables and collections\<close>

text \<open>\<open>settings.CHUNK_ROWS_CAPACITY\<close> and \<open>settings.CHUNK_JSON_CAPACITY\<close>
  (app/core/config.py).\<close>

definition CHUNK_ROWS_CAPACITY :: nat where
  "CHUNK_ROWS_CAPACITY = 100000"

definition CHUNK_JSON_CAPACITY :: nat where
  "CHUNK_JSON_CAPACITY = 1000"

text \<open>The chunk that the \<open>create_object_chunks\<close> of the connectors for tables and
  collections build for index \<open>i\<close>:
  \<open>DataChunk(object_name, fetch_path, offset=str(i * capacity), limit=capacity,
  instance_id=settings.SCANNER_ID)\<close>.\<close>

definition table_chunk :: "string \<Rightarrow> string \<Rightarrow> string \<Rightarrow> nat \<Rightarrow> nat \<Rightarrow> data_chunk" where
  "table_chunk scanner_id object_name fetch_path capacity i =
     \<lparr>dc_object_name = Some object_name,
      dc_fetch_path = Some fetch_path,
      dc_offset = Some (str_of_nat (i * capacity)),
      dc_limit = Some capacity,
      dc_scanned_at = None,
      dc_status = WAIT_FOR_SCAN,
      dc_hash = None,
      dc_instance_id = Some scanner_id,
      dc_labels = None,
      dc_latest_data_type = None\<rparr>"

text \<open>\<open>RDSService.create_object_chunks\<close> (app/services/rds\_service.py). The number of
  rows is what \<open>SELECT COUNT(*)\<close> returns, or the exception of the query; the size only
  decides whether the table is looked at.\<close>

definition rds_create_object_chunks ::
  "string \<Rightarrow> py_exn + nat \<Rightarrow> string \<Rightarrow> nat \<Rightarrow> py_exn + data_chunk list" where
  "rds_create_object_chunks scanner_id count_rows fetch_path sz =
     (if sz = 0 then Inr []
      else
        (case count_rows of
           Inl e \<Rightarrow> Inl e
         | Inr total_rows \<Rightarrow>
             Inr (map (table_chunk scanner_id (rsplit_last ''.'' fetch_path) fetch_path
                         CHUNK_ROWS_CAPACITY)
                    [0..<ceil_truediv total_rows CHUNK_ROWS_CAPACITY])))"

text \<open>\<open>RedshiftService.create_object_chunks\<close> (app/services/redshift\_service.py); the
  name of the database only goes into the query that counts the rows.\<close>

definition redshift_create_object_chunks ::
  "string \<Rightarrow> py_exn + nat \<Rightarrow> string \<Rightarrow> nat \<Rightarrow> py_exn + data_chunk list" where
  "redshift_create_object_chunks scanner_id count_rows fetch_path sz =
     (if sz = 0 then Inr []
      else
        (case count_rows of
           Inl e \<Rightarrow> Inl e
         | Inr total_rows \<Rightarrow>
             Inr (map (table_chunk scanner_id (rsplit_last ''.'' fetch_path) fetch_path
                         CHUNK_ROWS_CAPACITY)
                    [0..<ceil_truediv total_rows CHUNK_ROWS_CAPACITY])))"

text \<open>\<open>SnowflakeService.create_object_chunks\<close> (app/services/snowflake\_service.py); the
  size may be \<open>None\<close>.\<close>

definition snowflake_create_object_chunks ::
  "string \<Rightarrow> py_exn + nat \<Rightarrow> string \<Rightarrow> nat option \<Rightarrow> py_exn + data_chunk list" where
  "snowflake_create_object_chunks scanner_id count_rows fetch_path sz =
     (if sz = None \<or> sz = Some 0 then Inr []
      else
        (case count_rows of
           Inl e \<Rightarrow> Inl e
         | Inr total_rows \<Rightarrow>
             Inr (map (table_chunk scanner_id (rsplit_last ''.'' fetch_path) fetch_path
                         CHUNK_ROWS_CAPACITY)
                    [0..<ceil_truediv total_rows CHUNK_ROWS_CAPACITY])))"

text \<open>\<open>DynamoDBService.create_object_chunks\<close> (app/services/dynamodb.py): the name and the
  fetch path of a chunk are the source, the number of items comes with the description of
  the table.\<close>

definition dynamodb_create_object_chunks ::
  "string \<Rightarrow> string \<Rightarrow> nat \<Rightarrow> nat \<Rightarrow> data_chunk list" where
  "dynamodb_create_object_chunks scanner_id source sz items_number =
     (if sz = 0 \<or> items_number = 0 then []
      else map (table_chunk scanner_id source source CHUNK_ROWS_CAPACITY)
             [0..<ceil_truediv items_number CHUNK_ROWS_CAPACITY])"

text \<open>\<open>DocumentDBService.create_object_chunks\<close> (app/services/documentdb.py). The
  collection is named by what follows the first slash of the fetch path
  (\<open>fetch_path.split('/')[1]\<close>, an \<open>IndexError\<close> when there is no slash); the number of
  documents is what \<open>count_documents\<close> returns for it, or its exception.\<close>

definition documentdb_create_object_chunks ::
  "string \<Rightarrow> (string \<Rightarrow> py_exn + nat) \<Rightarrow> string \<Rightarrow> nat \<Rightarrow> py_exn + data_chunk list" where
  "documentdb_create_object_chunks scanner_id count_documents fetch_path sz =
     (if sz = 0 then Inr []
      else
        (case py_split CHR ''/'' fetch_path of
           _ # collection_name # _ \<Rightarrow>
             (case count_documents collection_name of
                Inl e \<Rightarrow> Inl e
              | Inr total_docs \<Rightarrow>
                  Inr (map (table_chunk scanner_id fetch_path fetch_path CHUNK_JSON_CAPACITY)
                         [0..<ceil_truediv total_docs CHUNK_JSON_CAPACITY]))
         | _ \<Rightarrow> Inl OtherError))"

text \<open>What \<open>get_objects_by_source\<close> of these five connectors does with the chunks: the
  object is built with \<open>data_chunks=await self.create_object_chunks(...)\<close>, and then
  \<open>if not content.data_chunks: content.status = FileStatus.SCANNED\<close>.\<close>

definition with_data_chunks :: "object_contents \<Rightarrow> data_chunk list \<Rightarrow> object_contents" where
  "with_data_chunks content data_chunks =
     (if data_chunks = [] then content\<lparr>oc_data_chunks := data_chunks, oc_status := Some SCANNED\<rparr>
      else content\<lparr>oc_data_chunks := data_chunks\<rparr>)"

text \<open>The words of the specification for a chunk plan: for \<open>s > 0\<close> units (bytes, rows or
  documents) and the limit \<open>L\<close>, the chunks are at the offsets
  \<open>0, L, 2L, \<dots>, \<lfloor>(s - 1) / L\<rfloor> L\<close>, written in decimal, in this order, each with limit
  \<open>L\<close>, waiting for its scan and without a hash.\<close>

definition is_chunk_plan :: "nat \<Rightarrow> nat \<Rightarrow> data_chunk list \<Rightarrow> bool" where
  "is_chunk_plan L s chunks \<longleftrightarrow>
     map dc_offset chunks = map (\<lambda>k. Some (str_of_nat (k * L))) [0..<Suc ((s - 1) div L)]
     \<and> list_all (\<lambda>c. dc_limit c = Some L \<and> dc_status c = WAIT_FOR_SCAN \<and> dc_hash c = None)
         chunks"

section \<open>app/services/base\_scan\_service.py: the source diff\<close>

text \<open>A chunk as the control plane returns it inside a metadata record (a dictionary read
  with \<open>get\<close>), and \<open>FileMetadata\<close> with the fields the diff reads.\<close>

record db_chunk =
  dbc_id :: string
  dbc_offset :: "string option"
  dbc_hash :: "string option"
  dbc_status :: file_status

record file_metadata =
  fm_id :: string
  fm_file_full_path :: string
  fm_file_size :: nat
  fm_chunks :: "db_chunk list"

text \<open>A Python dictionary built by assignments in order: a key keeps the position of its
  first assignment and the value of its last.\<close>

fun dict_set :: "'k \<Rightarrow> 'v \<Rightarrow> ('k \<times> 'v) list \<Rightarrow> ('k \<times> 'v) list" where
  "dict_set k v [] = [(k, v)]"
| "dict_set k v ((k', v') # d) = (if k = k' then (k, v) # d else (k', v') # dict_set k v d)"

definition py_dict :: "('k \<times> 'v) list \<Rightarrow> ('k \<times> 'v) list" where
  "py_dict kvs = foldl (\<lambda>d (k, v). dict_set k v d) [] kvs"

text \<open>Modelled from the spec: the control plane, which is not part of this repository.
  Deleting metadata records removes the records with the given ids (and with them their
  chunks); deleting chunks removes the chunks with the given ids. \<open>load_stored_metadata\<close>
  then returns what is left.\<close>

definition cp_delete_metadata :: "string list \<Rightarrow> file_metadata list \<Rightarrow> file_metadata list" where
  "cp_delete_metadata ids db = filter (\<lambda>m. fm_id m \<notin> set ids) db"

definition cp_delete_chunks :: "string list \<Rightarrow> file_metadata list \<Rightarrow> file_metadata list" where
  "cp_delete_chunks ids db =
     map (\<lambda>m. m\<lparr>fm_chunks := filter (\<lambda>c. dbc_id c \<notin> set ids) (fm_chunks m)\<rparr>) db"

text \<open>What the diff depends on: the connector's \<open>fetch_data\<close>, the SHA-384 digest of
  \<open>hash_data\<close>, and \<open>settings.SCANNER_ID\<close>.\<close>

record diff_env =
  de_fetch :: "string \<Rightarrow> string option \<Rightarrow> nat option \<Rightarrow> nat \<Rightarrow> py_exn + py_data"
  de_sha384 :: "string \<Rightarrow> string"
  de_scanner_id :: string

text \<open>\<open>BaseScanService.remove_deleted_metadata\<close>: the request sent and the stored
  metadata afterwards.\<close>

definition remove_deleted_metadata ::
  "file_metadata list \<Rightarrow> object_contents list \<Rightarrow> event list \<times> file_metadata list" where
  "remove_deleted_metadata stored fetched_objects =
     (let source_objects_paths = set (map oc_full_path fetched_objects);
          db_objects_dict = py_dict (map (\<lambda>m. (fm_file_full_path m, fm_id m)) stored);
          meta_ids = map snd (filter (\<lambda>(path, i). path \<notin> source_objects_paths) db_objects_dict)
      in if meta_ids = [] then ([], stored)
         else ([Delete_Metadata meta_ids], cp_delete_metadata meta_ids stored))"

text \<open>\<open>BaseScanService.remove_deleted_chunks\<close>: the request sent, the tombstone set
  (strings of full path and offset, with nothing between them) and the stored metadata
  afterwards. The ids are listed in the order of the dictionary; the code iterates over a
  set of them.\<close>

definition remove_deleted_chunks ::
  "file_metadata list \<Rightarrow> object_contents list
     \<Rightarrow> event list \<times> string list \<times> file_metadata list" where
  "remove_deleted_chunks stored fetched_objects =
     (let source_objects_chunks =
            set (concat (map (\<lambda>obj. map (\<lambda>chunk. oc_full_path obj @ py_str_opt (dc_offset chunk))
                                       (oc_data_chunks obj)) fetched_objects));
          db_object_chunks_dict =
            py_dict (concat (map (\<lambda>m. map (\<lambda>chunk.
                        (fm_file_full_path m @ py_str_opt (dbc_offset chunk), dbc_id chunk))
                      (fm_chunks m)) stored));
          to_delete = filter (\<lambda>(key, i). key \<notin> source_objects_chunks) db_object_chunks_dict;
          chunks_to_delete = map fst to_delete;
          chunk_ids = map snd to_delete
      in if chunk_ids = [] then ([], chunks_to_delete, stored)
         else ([Delete_Chunks chunk_ids], chunks_to_delete, cp_delete_chunks chunk_ids stored))"

text \<open>The strings \<open>full_path,offset,hash\<close> that the diff compares.\<close>

definition chunk_key :: "string \<Rightarrow> string \<Rightarrow> string \<Rightarrow> string" where
  "chunk_key full_path offset hash = full_path @ '','' @ offset @ '','' @ hash"

text \<open>The first loop of the body of \<open>remove_deleted_files_from_db\<close>: every chunk of the
  source object outside the tombstone set is fetched and hashed. The fetches made, and
  either the exception that leaves the function (\<open>int\<close> of the offset, the fetch, or
  \<open>encode\<close> on what is not a text) or the keys.\<close>

fun source_chunk_keys ::
  "diff_env \<Rightarrow> string list \<Rightarrow> object_contents \<Rightarrow> data_chunk list
     \<Rightarrow> event list \<times> (py_exn + string list)" where
  "source_chunk_keys env deleted_chunks obj [] = ([], Inr [])"
| "source_chunk_keys env deleted_chunks obj (chunk # chunks) =
     (if oc_full_path obj @ py_str_opt (dc_offset chunk) \<in> set deleted_chunks
      then source_chunk_keys env deleted_chunks obj chunks
      else
        (case dc_offset chunk of
           None \<Rightarrow> ([], Inl TypeError)
         | Some off \<Rightarrow>
             (case py_int off of
                Inl e \<Rightarrow> ([], Inl e)
              | Inr offset \<Rightarrow>
                  (let fetched = Fetch_Data (oc_fetch_path obj) (dc_fetch_path chunk)
                                   (dc_limit chunk) offset
                   in case de_fetch env (oc_fetch_path obj) (dc_fetch_path chunk)
                             (dc_limit chunk) offset of
                        Inl e \<Rightarrow> ([fetched], Inl e)
                      | Inr (PyStr text) \<Rightarrow>
                          (case source_chunk_keys env deleted_chunks obj chunks of
                             (steps, Inl e) \<Rightarrow> (fetched # steps, Inl e)
                           | (steps, Inr keys) \<Rightarrow>
                               (fetched # steps,
                                Inr (chunk_key (oc_full_path obj) off
                                       (hash_data (de_sha384 env) text) # keys)))
                      | Inr _ \<Rightarrow> ([fetched], Inl AttributeError)))))"

text \<open>The second loop: the dictionary from the keys of the recorded chunks outside the
  tombstone set to \<open>chunk_id,metadata_id\<close>.\<close>

definition metadata_chunk_dict :: "string list \<Rightarrow> file_metadata \<Rightarrow> (string \<times> string) list" where
  "metadata_chunk_dict deleted_chunks meta_obj =
     py_dict (map (\<lambda>chunk.
                (chunk_key (fm_file_full_path meta_obj) (py_str_opt (dbc_offset chunk))
                   (py_str_opt (dbc_hash chunk)),
                 dbc_id chunk @ '','' @ fm_id meta_obj))
              (filter (\<lambda>chunk. fm_file_full_path meta_obj @ py_str_opt (dbc_offset chunk)
                         \<notin> set deleted_chunks)
                 (fm_chunks meta_obj)))"

text \<open>\<open>BaseScanService.update_metadata_existing_chunks\<close>: the request sent and the keys
  returned.\<close>

definition update_metadata_existing_chunks ::
  "diff_env \<Rightarrow> string list \<Rightarrow> file_metadata \<Rightarrow> (string \<times> string) list
     \<Rightarrow> event list \<times> string list" where
  "update_metadata_existing_chunks env object_chunks metadata metadata_chunks =
     (let to_update = filter (\<lambda>(key, v). key \<notin> set object_chunks) metadata_chunks;
          chunk_ids = map (\<lambda>(key, v). hd (py_split CHR '','' v)) to_update
      in (if chunk_ids = [] then []
          else [Patch_Chunks_Batch (fm_id metadata) chunk_ids
                  \<lparr>up_object_size = fm_file_size metadata, up_scanned_at = None,
                   up_instance_id = de_scanner_id env, up_labels = None, up_hash = None,
                   up_status = WAIT_FOR_SCAN\<rparr>],
          map fst to_update))"

text \<open>\<open>chunk.split(',')[1]\<close> on a key; a key has two commas at least, so the index is in
  range.\<close>

definition key_offset :: "string \<Rightarrow> string" where
  "key_offset key = (case py_split CHR '','' key of _ # off # _ \<Rightarrow> off | _ \<Rightarrow> [])"

text \<open>\<open>BaseScanService.create_newly_added_chunks\<close>: the request sent.\<close>

definition create_newly_added_chunks ::
  "string list \<Rightarrow> (string \<times> string) list \<Rightarrow> file_metadata \<Rightarrow> object_contents \<Rightarrow> string list
     \<Rightarrow> event list" where
  "create_newly_added_chunks source_objects_chunks db_chunks metadata obj_value updated_chunks =
     (let filtered_chunks = filter (\<lambda>key. key \<notin> fst ` set db_chunks) source_objects_chunks;
          offsets_to_update = map key_offset updated_chunks;
          offsets_to_create = filter (\<lambda>off. off \<notin> set offsets_to_update)
                                (map key_offset filtered_chunks);
          chunks_to_create_list =
            filter (\<lambda>chunk. case dc_offset chunk of
                               None \<Rightarrow> False
                             | Some off \<Rightarrow> off \<in> set offsets_to_create)
              (oc_data_chunks obj_value)
      in if chunks_to_create_list = [] then []
         else [Post_Chunks_Batch (fm_id metadata) (fm_file_size metadata) WAIT_FOR_SCAN
                 chunks_to_create_list])"

text \<open>The body of the loop of \<open>remove_deleted_files_from_db\<close> for a source object and the
  metadata record of its path, once the size of the record has been set to the size of the
  object.\<close>

definition diff_object ::
  "diff_env \<Rightarrow> string list \<Rightarrow> object_contents \<Rightarrow> file_metadata \<Rightarrow> event list \<times> py_exn option" where
  "diff_object env deleted_chunks obj meta_obj =
     (case source_chunk_keys env deleted_chunks obj (oc_data_chunks obj) of
        (fetches, Inl e) \<Rightarrow> (fetches, Some e)
      | (fetches, Inr object_chunks) \<Rightarrow>
          (let metadata_chunks = metadata_chunk_dict deleted_chunks meta_obj;
               (updates, updated_chunks) =
                 update_metadata_existing_chunks env object_chunks meta_obj metadata_chunks;
               creates = create_newly_added_chunks object_chunks metadata_chunks meta_obj obj
                           updated_chunks
           in (fetches @ updates @ creates, None)))"

text \<open>The loop over \<open>objects_paths_sizes.items()\<close>. The records of \<open>metadata_paths_sizes\<close>
  are shared with the stored metadata, so the new size of a record is seen by the later
  iterations. An object with no record, or with a record of the same size, is passed over.\<close>

fun diff_loop ::
  "diff_env \<Rightarrow> string list \<Rightarrow> (string \<times> file_metadata) list
     \<Rightarrow> ((string \<times> nat) \<times> object_contents) list \<Rightarrow> event list \<times> py_exn option" where
  "diff_loop env deleted_chunks metas [] = ([], None)"
| "diff_loop env deleted_chunks metas ((key, obj) # items) =
     (case map_of metas (fst key) of
        None \<Rightarrow> diff_loop env deleted_chunks metas items
      | Some meta_obj \<Rightarrow>
          if fm_file_size meta_obj = snd key then diff_loop env deleted_chunks metas items
          else
            (let meta_obj' = meta_obj\<lparr>fm_file_size := snd key\<rparr>;
                 metas' = dict_set (fst key) meta_obj' metas
             in case diff_object env deleted_chunks obj meta_obj' of
                  (steps, Some e) \<Rightarrow> (steps, Some e)
                | (steps, None) \<Rightarrow>
                    (case diff_loop env deleted_chunks metas' items of
                       (more_steps, r) \<Rightarrow> (steps @ more_steps, r))))"

text \<open>\<open>BaseScanService.remove_deleted_files_from_db\<close>: the requests and fetches, in order,
  and the exception that leaves the function if one does.\<close>

definition remove_deleted_files_from_db ::
  "diff_env \<Rightarrow> file_metadata list \<Rightarrow> object_contents list \<Rightarrow> event list \<times> py_exn option" where
  "remove_deleted_files_from_db env stored fetched_objects =
     (if stored = [] then ([], None)
      else
        (let (deletes1, stored1) = remove_deleted_metadata stored fetched_objects;
             (deletes2, deleted_chunks, stored2) = remove_deleted_chunks stored1 fetched_objects;
             metadata_paths_sizes = py_dict (map (\<lambda>m. (fm_file_full_path m, m)) stored2);
             objects_paths_sizes =
               py_dict (map (\<lambda>obj. ((oc_full_path obj, oc_size obj), obj)) fetched_objects)
         in case diff_loop env deleted_chunks metadata_paths_sizes objects_paths_sizes of
              (steps, r) \<Rightarrow> (deletes1 @ deletes2 @ steps, r)))"





text \<open>Scenario 3 of the specification: an object of 1\,200\,000 bytes recorded with its two
  chunks scanned, discovered again with the same size and the same chunk plan, while the
  bytes of its second chunk have changed.\<close>

definition example_source_chunk :: "nat \<Rightarrow> data_chunk" where
  "example_source_chunk i =
     \<lparr>dc_object_name = Some ''big.bin'', dc_fetch_path = Some ''big.bin'',
      dc_offset = Some (str_of_nat (i * CHUNK_BYTES_CAPACITY)),
      dc_limit = Some CHUNK_BYTES_CAPACITY, dc_scanned_at = None,
      dc_status = WAIT_FOR_SCAN, dc_hash = None, dc_instance_id = Some ''i-0abc'',
      dc_labels = None, dc_latest_data_type = None\<rparr>"

definition example_object :: "nat \<Rightarrow> object_contents" where
  "example_object sz =
     \<lparr>oc_full_path = ''bucket/big.bin'', oc_object_name = ''big.bin'', oc_size = sz,
      oc_fetch_path = ''big.bin'', oc_etag = ''e2'', oc_status = Some WAIT_FOR_SCAN,
      oc_data = PyNone,
      oc_data_chunks = [example_source_chunk 0, example_source_chunk 1],
      oc_current_chunk = None\<rparr>"

definition example_recorded :: file_metadata where
  "example_recorded =
     \<lparr>fm_id = ''m-1'', fm_file_full_path = ''bucket/big.bin'', fm_file_size = 1200000,
      fm_chunks =
        [\<lparr>dbc_id = ''c-0'', dbc_offset = Some ''0'', dbc_hash = Some ''sha:first'',
          dbc_status = SCANNED\<rparr>,
         \<lparr>dbc_id = ''c-1'', dbc_offset = Some ''1000000'', dbc_hash = Some ''sha:second'',
          dbc_status = SCANNED\<rparr>]\<rparr>"

definition example_stored :: "file_metadata list" where
  "example_stored = [example_recorded]"

text \<open>The connector returns \<open>first\<close> for the chunk at offset 0 and \<open>changed\<close> for the other
  one; the digest is a stand-in that tells the texts apart.\<close>

definition example_diff_env :: diff_env where
  "example_diff_env =
     \<lparr>de_fetch = (\<lambda>fetch_path chunk_path limit offset.
         Inr (PyStr (if offset = 0 then ''first'' else ''changed''))),
      de_sha384 = (\<lambda>text. ''sha:'' @ text),
      de_scanner_id = ''i-0abc''\<rparr>"


section \<open>Properties of the string helpers\<close>

lemma takeWhile_id: "(\<And>x. x \<in> set xs \<Longrightarrow> P x) \<Longrightarrow> takeWhile P xs = xs"
  by (induction xs) auto

lemma rev_takeWhile_rev_id:
  assumes "\<And>x. x \<in> set s \<Longrightarrow> P x"
  shows "rev (takeWhile P (rev s)) = s"
proof -
  have "takeWhile P (rev s) = rev s" by (rule takeWhile_id) (simp add: assms)
  then show ?thesis by (simp only: rev_rev_ident)
qed

lemma py_split_no_sep: "sep \<notin> set s \<Longrightarrow> py_split sep s = [s]"
  by (induction s) auto

lemma py_split_first: "sep \<notin> set u \<Longrightarrow> py_split sep (u @ sep # d) = u # py_split sep d"
  by (induction u) auto

lemma py_split_nonempty: "py_split sep s \<noteq> []"
  by (induction s) (auto split: list.splits)

lemma length_py_split: "length (py_split sep s) = Suc (count_list s sep)"
  by (induction s) (auto split: list.splits)

lemma py_split_sep_not_single: "py_split sep (a @ sep # b) \<noteq> [x]"
proof
  assume "py_split sep (a @ sep # b) = [x]"
  then have "length (py_split sep (a @ sep # b)) = 1" by simp
  then show False by (simp add: length_py_split)
qed

lemma last_py_split_append: "last (py_split sep (a @ sep # b)) = last (py_split sep b)"
  by (induction a) (auto simp: py_split_nonempty py_split_sep_not_single split: list.splits)

lemma last_py_split: "last (py_split sep s) = rev (takeWhile (\<lambda>c. c \<noteq> sep) (rev s))"
proof (cases "sep \<in> set s")
  case False
  then have "rev (takeWhile (\<lambda>c. c \<noteq> sep) (rev s)) = s"
    by (intro rev_takeWhile_rev_id) auto
  moreover have "last (py_split sep s) = s" using False by (simp add: py_split_no_sep)
  ultimately show ?thesis by (simp only:)
next
  case True
  then obtain a b where s: "s = a @ sep # b" and b: "sep \<notin> set b"
    by (meson split_list_last)
  have "last (py_split sep s) = b"
    using b by (simp add: s last_py_split_append py_split_no_sep)
  moreover have "rev (takeWhile (\<lambda>c. c \<noteq> sep) (rev b)) = b"
    using b by (intro rev_takeWhile_rev_id) auto
  moreover have "rev (takeWhile (\<lambda>c. c \<noteq> sep) (rev s))
      = rev (takeWhile (\<lambda>c. c \<noteq> sep) (rev b))"
    by (simp add: s takeWhile_tail)
  ultimately show ?thesis by simp
qed

lemma one_at_split:
  assumes "count_list data sep = 1"
  obtains u d where "data = u @ sep # d" "sep \<notin> set u" "sep \<notin> set d"
proof -
  have "sep \<in> set data" using assms by (metis count_list_0_iff zero_neq_one)
  then obtain u d where s: "data = u @ sep # d" and u: "sep \<notin> set u"
    by (meson split_list_first)
  have "count_list d sep = 0" using assms u by (simp add: s count_list_0_iff)
  then have "sep \<notin> set d" by (simp add: count_list_0_iff)
  with s u that show thesis by blast
qed

lemma tld_of_address:
  assumes "CHR ''@'' \<notin> set d"
  shows "tld_of (u @ CHR ''@'' # d) = rev (takeWhile (\<lambda>c. c \<noteq> CHR ''.'') (rev d))"
proof (cases "CHR ''.'' \<in> set d")
  case False
  then have "rev (takeWhile (\<lambda>c. c \<noteq> CHR ''.'' \<and> c \<noteq> CHR ''@'') (rev d)) = d"
    and "rev (takeWhile (\<lambda>c. c \<noteq> CHR ''.'') (rev d)) = d"
    using assms by (auto intro!: rev_takeWhile_rev_id)
  moreover have "tld_of (u @ CHR ''@'' # d)
      = rev (takeWhile (\<lambda>c. c \<noteq> CHR ''.'' \<and> c \<noteq> CHR ''@'') (rev d))"
    by (simp add: tld_of_def takeWhile_tail)
  ultimately show ?thesis by (simp only:)
next
  case True
  then obtain a b where d: "d = a @ CHR ''.'' # b" and b: "CHR ''.'' \<notin> set b"
    by (meson split_list_last)
  have "CHR ''@'' \<notin> set b" using assms d by simp
  then have "rev (takeWhile (\<lambda>c. c \<noteq> CHR ''.'' \<and> c \<noteq> CHR ''@'') (rev b)) = b"
    and "rev (takeWhile (\<lambda>c. c \<noteq> CHR ''.'') (rev b)) = b"
    using b by (auto intro!: rev_takeWhile_rev_id)
  moreover have "tld_of (u @ CHR ''@'' # d)
      = rev (takeWhile (\<lambda>c. c \<noteq> CHR ''.'' \<and> c \<noteq> CHR ''@'') (rev b))"
    by (simp add: tld_of_def d takeWhile_tail)
  moreover have "rev (takeWhile (\<lambda>c. c \<noteq> CHR ''.'') (rev d))
      = rev (takeWhile (\<lambda>c. c \<noteq> CHR ''.'') (rev b))"
    by (simp add: d takeWhile_tail)
  ultimately show ?thesis by (simp only:)
qed

lemma email_address_masked_eq:
  assumes "count_list data CHR ''@'' = 1"
  shows "mask_data ''EMAIL_ADDRESS'' data =
           take 1 data
           @ re_sub_alnum (py_slice 1 (length data - length (tld_of data)) data)
           @ tld_of data"
proof -
  from assms obtain u d where s: "data = u @ CHR ''@'' # d"
    and u: "CHR ''@'' \<notin> set u" and d: "CHR ''@'' \<notin> set d"
    by (rule one_at_split)
  have sp: "py_split CHR ''@'' data = [u, d]"
    using u d by (simp add: s py_split_first py_split_no_sep)
  have tld: "last (py_split CHR ''.'' d) = tld_of data"
    using d by (simp add: s tld_of_address last_py_split)
  have "mask_data_try ''EMAIL_ADDRESS'' data =
          Inr (take 1 data
               @ re_sub_alnum (py_slice 1 (length data - length (tld_of data)) data)
               @ tld_of data)"
    unfolding mask_data_try_def sp using tld by (simp add: s Let_def)
  then show ?thesis by (simp add: mask_data_def)
qed

lemma tld_of_suffix: "suffix (tld_of s) s"
  unfolding tld_of_def
  by (metis takeWhile_dropWhile_id rev_append rev_rev_ident suffixI)

lemma tld_of_shorter:
  assumes "CHR ''@'' \<in> set s" shows "length (tld_of s) < length s"
proof -
  have no: "CHR ''@'' \<notin> set (tld_of s)"
    unfolding tld_of_def using set_takeWhileD by fastforce
  from tld_of_suffix [of s] obtain zs where zs: "s = zs @ tld_of s"
    by (auto simp: suffix_def)
  have "set s = set zs \<union> set (tld_of s)" by (subst zs) simp
  then have "CHR ''@'' \<in> set zs" using assms no by simp
  then have "0 < length zs" by auto
  moreover have "length s = length zs + length (tld_of s)" by (subst zs) simp
  ultimately show ?thesis by simp
qed

lemma tld_of_no_dot: "CHR ''.'' \<notin> set (tld_of s) \<and> CHR ''@'' \<notin> set (tld_of s)"
  unfolding tld_of_def using set_takeWhileD by fastforce



lemma count_list_two_mem: "2 \<le> count_list s c \<Longrightarrow> c \<in> set s"
  by (metis count_list_0_iff not_numeral_le_zero)

lemma py_split_not_two:
  "count_list data sep \<noteq> 1 \<Longrightarrow>
     (case py_split sep data of [u, d] \<Rightarrow> f u d | _ \<Rightarrow> g) = g"
  using length_py_split [of sep data]
  by (auto split: list.splits)

lemma mask_data_try_many_at:
  assumes "contains entity ''EMAIL''" and "2 \<le> count_list data CHR ''@''"
  shows "mask_data_try entity data = Inl ValueError"
proof -
  have "CHR ''@'' \<in> set data" using assms(2) by (rule count_list_two_mem)
  moreover from this have "data \<noteq> []" by auto
  moreover have "count_list data CHR ''@'' \<noteq> 1" using assms(2) by simp
  ultimately show ?thesis using assms(1)
    unfolding mask_data_try_def by (simp add: py_split_not_two)
qed

lemma mask_data_on_exception: "mask_data_try entity data = Inl e \<Longrightarrow> mask_data entity data = data"
  by (simp add: mask_data_def)

lemma take2_prefix: "take 2 s = [a, b] \<longleftrightarrow> prefix [a, b] s"
  by (cases s; cases "tl s") auto

section \<open>Properties of the floating-point ceiling\<close>

text \<open>A positive number lies between the powers of two that its number of binary digits
  gives.\<close>

lemma bit_length_bounds:
  "0 < n \<Longrightarrow> 2 ^ (bit_length n - 1) \<le> n \<and> n < 2 ^ bit_length n"
proof (induction n rule: bit_length.induct)
  case (1 n)
  show ?case
  proof (cases "n div 2 = 0")
    case True
    with 1(2) have "n = 1" by (simp add: div_eq_0_iff)
    then show ?thesis by (simp add: bit_length.simps)
  next
    case False
    then have p: "0 < n div 2" by simp
    from 1(1) [OF _ p] 1(2)
    have ih: "2 ^ (bit_length (n div 2) - 1) \<le> n div 2" "n div 2 < 2 ^ bit_length (n div 2)"
      by auto
    have bl: "bit_length n = Suc (bit_length (n div 2))"
      using 1(2) by (subst bit_length.simps) simp
    have pos: "0 < bit_length (n div 2)"
      using p by (subst bit_length.simps) simp
    have "2 ^ (bit_length n - 1) = 2 * 2 ^ (bit_length (n div 2) - 1)"
      using pos by (simp add: bl flip: power_Suc)
    also have "\<dots> \<le> 2 * (n div 2)" using ih(1) by simp
    also have "\<dots> \<le> n" by simp
    finally have a: "2 ^ (bit_length n - 1) \<le> n" .
    have "n < 2 * (n div 2) + 2" by presburger
    also have "\<dots> \<le> 2 * 2 ^ bit_length (n div 2)" using ih(2) by simp
    finally have b: "n < 2 ^ bit_length n" by (simp add: bl)
    from a b show ?thesis by blast
  qed
qed

lemma ceil_int:
  assumes "0 < b"
  shows "(a + b - 1) div b = (if a mod b = 0 then a div b else Suc (a div b))"
proof -
  define q r where "q = a div b" and "r = a mod b"
  have a: "a = b * q + r" and rb: "r < b" using assms by (simp_all add: q_def r_def)
  show ?thesis
  proof (cases "r = 0")
    case True
    have "a + b - 1 = (b - 1) + b * q" using a True assms by arith
    then have "(a + b - 1) div b = q + (b - 1) div b"
      using assms by (simp only: div_mult_self2 [of b "b - 1" q])
    with True assms show ?thesis by (simp add: q_def r_def)
  next
    case False
    have "a + b - 1 = (r - 1) + b * Suc q" using a False assms by (simp add: algebra_simps)
    then have "(a + b - 1) div b = Suc q + (r - 1) div b"
      using assms by (simp only: div_mult_self2 [of b "r - 1" "Suc q"])
    moreover have "r - 1 < b" using rb by simp
    ultimately show ?thesis using False by (simp add: q_def r_def)
  qed
qed

lemma round_half_even_bounds:
  "x div y \<le> round_half_even x y \<and> round_half_even x y \<le> Suc (x div y)"
  by (simp add: round_half_even_def Let_def)

lemma round_half_even_exact: "0 < y \<Longrightarrow> x mod y = 0 \<Longrightarrow> round_half_even x y = x div y"
  by (simp add: round_half_even_def Let_def)

lemma round_half_even_up: "y < 2 * (x mod y) \<Longrightarrow> round_half_even x y = Suc (x div y)"
  by (simp add: round_half_even_def Let_def)

lemma ceil_between:
  assumes "0 < P" and "k * P < m" and "m \<le> k * P + P"
  shows "(m + P - 1) div P = Suc k"
proof -
  have "m + P - 1 = (m - 1 - k * P) + P * Suc k" using assms by (simp add: algebra_simps)
  then have "(m + P - 1) div P = Suc k + (m - 1 - k * P) div P"
    using assms(1) by (simp only: div_mult_self2 [of P "m - 1 - k * P" "Suc k"])
  moreover have "m - 1 - k * P < P" using assms by arith
  ultimately show ?thesis by simp
qed

text \<open>For a numerator below \<open>2^53\<close> the floating-point ceiling is the ceiling of the
  exact quotient \<open>k + r / b\<close>: with \<open>2^e \<le> k\<close> and \<open>P = 2^(52-e)\<close> the divisor is below
  \<open>2 P\<close>, so a remainder \<open>r \<ge> 1\<close> moves the rounded significand above \<open>k P\<close>.\<close>

lemma ceil_truediv_exact:
  assumes b: "0 < b" and a53: "a < 2 ^ 53"
  shows "ceil_truediv a b = (a + b - 1) div b"
proof (cases "a < b")
  case True
  with ceil_int [OF b, of a] show ?thesis by (simp add: ceil_truediv_def)
next
  case False
  define k r where "k = a div b" and "r = a mod b"
  define e where "e = bit_length k - 1"
  define P :: nat where "P = 2 ^ (52 - e)"
  have a: "a = k * b + r" and rb: "r < b" using b by (simp_all add: k_def r_def)
  have k1: "0 < k" using False b by (simp add: k_def div_greater_zero_iff)
  from bit_length_bounds [OF k1] have lo: "2 ^ e \<le> k" by (simp add: e_def)
  have "k \<le> k * b" using b by simp
  also have "\<dots> \<le> a" using a by simp
  finally have ka: "k \<le> a" .
  have "(2::nat) ^ e < 2 ^ 53" using lo ka a53 by linarith
  then have "e < 53" by (rule power_less_imp_less_exp [rotated]) simp
  then have e52: "e \<le> 52" by simp
  have P0: "0 < P" by (simp add: P_def)
  have PP: "2 ^ e * (2 * P) = (2::nat) ^ 53"
  proof -
    have "(2::nat) ^ e * (2 * P) = 2 ^ (e + Suc (52 - e))" by (simp add: P_def power_add)
    also have "e + Suc (52 - e) = 53" using e52 by simp
    finally show ?thesis .
  qed
  have "2 ^ e * b \<le> k * b" using lo by simp
  also have "\<dots> \<le> a" using a by simp
  also have "\<dots> < 2 ^ e * (2 * P)" using a53 by (simp only: PP)
  finally have b2P: "b < 2 * P" by simp
  have x: "a * P = (k * P) * b + r * P" by (simp add: a algebra_simps)
  have xd: "(a * P) div b = k * P + (r * P) div b"
    unfolding x using b by (simp only: div_mult_self3 [of b "k * P" "r * P"])
  have xm: "(a * P) mod b = (r * P) mod b"
    unfolding x by (simp only: mod_mult_self3)
  define m where "m = round_half_even (a * P) b"
  have ct: "ceil_truediv a b = (m + P - 1) div P"
    using False e52 by (simp add: ceil_truediv_def Let_def m_def P_def e_def k_def)
  show ?thesis
  proof (cases "r = 0")
    case True
    then have "(a * P) mod b = 0" by (simp add: xm)
    with b have "m = (a * P) div b" unfolding m_def by (rule round_half_even_exact)
    then have m: "m = k * P" using True by (simp add: xd)
    have "(m + P - 1) div P = k" using ceil_int [OF P0, of "k * P"] P0 by (simp add: m)
    moreover have "(a + b - 1) div b = k"
      using ceil_int [OF b, of a] True by (simp add: k_def r_def)
    ultimately show ?thesis by (simp add: ct)
  next
    case False
    then have r1: "1 \<le> r" by simp
    have "r * P < b * P" using rb P0 by simp
    then have dP: "(r * P) div b < P" using b by (simp add: less_mult_imp_div_less mult.commute)
    have up: "m \<le> k * P + P"
      using round_half_even_bounds [of "a * P" b] dP by (simp add: m_def xd)
    have low: "k * P < m"
    proof (cases "(r * P) div b = 0")
      case False
      with round_half_even_bounds [of "a * P" b] show ?thesis by (simp add: m_def xd)
    next
      case True
      then have "r * P < b" using b by (simp add: div_eq_0_iff)
      then have "(a * P) mod b = r * P" by (simp add: xm)
      moreover have "b < 2 * (r * P)"
      proof -
        have "2 * P \<le> 2 * (r * P)" using r1 by simp
        with b2P show ?thesis by linarith
      qed
      ultimately have "m = Suc ((a * P) div b)"
        unfolding m_def by (intro round_half_even_up) simp
      then show ?thesis by (simp add: xd)
    qed
    from P0 low up have "(m + P - 1) div P = Suc k" by (rule ceil_between)
    moreover have "(a + b - 1) div b = Suc k"
      using ceil_int [OF b, of a] False by (simp add: k_def r_def)
    ultimately show ?thesis by (simp add: ct)
  qed
qed

lemma bit_length_eqI: "2 ^ n \<le> k \<Longrightarrow> k < 2 ^ Suc n \<Longrightarrow> bit_length k = Suc n"
proof -
  assume lo: "2 ^ n \<le> k" and hi: "k < 2 ^ Suc n"
  have "0 < (2::nat) ^ n" by simp
  with lo have "0 < k" by linarith
  from bit_length_bounds [OF this] have b1: "2 ^ (bit_length k - 1) \<le> k" and b2: "k < 2 ^ bit_length k"
    by auto
  from lo b2 have "(2::nat) ^ n < 2 ^ bit_length k" by linarith
  then have "n < bit_length k" by simp
  moreover from b1 hi have "(2::nat) ^ (bit_length k - 1) < 2 ^ Suc n" by linarith
  then have "bit_length k - 1 < Suc n" by (rule power_less_imp_less_exp [rotated]) simp
  ultimately show ?thesis by linarith
qed

text \<open>Further up the two part: for 17\,179\,869\,184\,000\,001 bytes and chunks of
  1\,000\,000 the floating-point ceiling is 17\,179\,869\,184, one less than the number of
  chunks that cover the object.\<close>

lemma ceil_truediv_large:
  "ceil_truediv 17179869184000001 1000000 = 17179869184"
proof -
  have d: "(17179869184000001::nat) div 1000000 = 17179869184" by simp
  have "bit_length 17179869184 = Suc 34" by (rule bit_length_eqI) simp_all
  then show ?thesis by (simp add: ceil_truediv_def d round_half_even_def Let_def)
qed

text \<open>The number of chunks below \<open>2^53\<close> units, as the specification counts them.\<close>

lemma ceil_truediv_plan:
  assumes "0 < L" and "0 < s" and "s < 2 ^ 53"
  shows "ceil_truediv s L = Suc ((s - 1) div L)"
proof -
  have e: "s + L - 1 = (s - 1) + L" using assms by simp
  have "((s - 1) + L) div L = Suc ((s - 1) div L)"
    using div_add_self2 [of L "s - 1"] assms(1) by simp
  then have "(s + L - 1) div L = Suc ((s - 1) div L)" by (simp only: e)
  with ceil_truediv_exact [OF assms(1,3)] show ?thesis by simp
qed

lemma ceil_truediv_0: "0 < L \<Longrightarrow> ceil_truediv 0 L = 0"
  by (simp add: ceil_truediv_def)

section \<open>Region derivation\<close>

text \<open>
  Claim C9, as the code has it: the region is "USA" for a classifier name that starts
  with US, "India" for one that starts with IN, and "All" for every other name. There is no
  branch for UK: a name that starts with UK gets "All".
\<close>

theorem get_region_by_prefix:
  "get_region n =
     (if prefix ''US'' n then ''USA'' else if prefix ''IN'' n then ''India'' else ''All'')"
  unfolding get_region_def by (simp only: take2_prefix)

theorem get_region_by_prefix_witness:
  "get_region ''US_SSN'' = ''USA'' \<and> get_region ''IN_PAN'' = ''India''
     \<and> get_region ''CREDIT_CARD'' = ''All''"
  using get_region_by_prefix [of "''US_SSN''"] get_region_by_prefix [of "''IN_PAN''"]
    get_region_by_prefix [of "''CREDIT_CARD''"]
  by simp

text \<open>The system classifier \<open>UK_NHS\<close> starts with UK and its region is "All", not "UK".\<close>

theorem get_region_uk_counterexample:
  "prefix ''UK'' ''UK_NHS'' \<and> get_region ''UK_NHS'' = ''All'' \<and> get_region ''UK_NHS'' \<noteq> ''UK''"
  by (simp add: get_region_def)

section \<open>Masking\<close>

lemma re_sub_alnum_all:
  "list_all is_alnum u \<Longrightarrow> re_sub_alnum u = replicate (length u) CHR ''*''"
  by (induction u) (simp_all add: re_sub_alnum_def mask_char_def)

lemma is_alnum_no_at: "list_all is_alnum u \<Longrightarrow> CHR ''@'' \<notin> set u \<and> CHR ''.'' \<notin> set u"
  by (induction u) (auto simp: is_alnum_def)

text \<open>An address made of \<open>a\<close>, five characters of \<open>[A-Za-z0-9]\<close>, the at-sign, five more
  such characters and \<open>.com\<close>.\<close>

lemma email_address_masked_shape:
  assumes "length u = 5" and "length v = 5" and "list_all is_alnum u" and "list_all is_alnum v"
  shows "mask_data ''EMAIL_ADDRESS'' (''a'' @ u @ ''@'' @ v @ ''.com'') = ''a*****@*****.com''"
proof -
  let ?data = "''a'' @ u @ ''@'' @ v @ ''.com''"
  from assms(3,4) have no: "CHR ''@'' \<notin> set u" "CHR ''@'' \<notin> set v" "CHR ''.'' \<notin> set v"
    by (simp_all add: is_alnum_no_at)
  have "count_list u CHR ''@'' = 0" "count_list v CHR ''@'' = 0"
    using no by (simp_all add: count_list_0_iff)
  then have one: "count_list ?data CHR ''@'' = 1" by simp
  have "tld_of ?data = tld_of ((''a'' @ u) @ CHR ''@'' # (v @ ''.com''))" by simp
  also have "\<dots> = rev (takeWhile (\<lambda>c. c \<noteq> CHR ''.'') (rev (v @ ''.com'')))"
    using no by (intro tld_of_address) simp
  also have "\<dots> = ''com''" by simp
  finally have tld: "tld_of ?data = ''com''" .
  have len: "length ?data = 16" using assms(1,2) by simp
  have sl: "py_slice 1 (length ?data - length ''com'') ?data = u @ ''@'' @ v @ ''.''"
    unfolding len using assms(1,2) by (simp add: py_slice_def)
  have "re_sub_alnum (u @ ''@'' @ v @ ''.'') = re_sub_alnum u @ ''@'' @ re_sub_alnum v @ ''.''"
    by (simp add: re_sub_alnum_def mask_char_def is_alnum_def)
  also have "\<dots> = ''*****@*****.''"
    using assms by (simp add: re_sub_alnum_all eval_nat_numeral)
  finally have m: "re_sub_alnum (u @ ''@'' @ v @ ''.'') = ''*****@*****.''" .
  have "mask_data ''EMAIL_ADDRESS'' ?data =
      take 1 ?data @ re_sub_alnum (py_slice 1 (length ?data - length (tld_of ?data)) ?data)
        @ tld_of ?data"
    using one by (rule email_address_masked_eq)
  also have "\<dots> = ''a*****@*****.com''"
    unfolding tld sl m by simp
  finally show ?thesis .
qed

text \<open>
  Claim C8: for a value with exactly one at-sign (a mail address), masking an
  \<open>EMAIL_ADDRESS\<close> finding keeps the length, keeps the first character and the top-level
  domain, and between them replaces every character of \<open>[A-Za-z0-9]\<close> with a star and
  leaves the others; the finding carries this masked value, the SHA-384 digest of the
  unmasked value and the region "All". The address of the example is printed in the
  specification with its characters withheld; the masked value gives its shape, \<open>a\<close>, five
  characters of \<open>[A-Za-z0-9]\<close>, the at-sign, five more and \<open>.com\<close>, and every address of
  that shape is reported as \<open>a*****@*****.com\<close>.
\<close>

theorem mask_email_address:
  assumes "count_list data CHR ''@'' = 1"
  shows "length (mask_data ''EMAIL_ADDRESS'' data) = length data
     \<and> take 1 (mask_data ''EMAIL_ADDRESS'' data) = take 1 data
     \<and> drop (length data - length (tld_of data)) (mask_data ''EMAIL_ADDRESS'' data) = tld_of data
     \<and> (\<forall>i. 1 \<le> i \<and> i < length data - length (tld_of data) \<longrightarrow>
           mask_data ''EMAIL_ADDRESS'' data ! i
             = (if is_alnum (data ! i) then CHR ''*'' else data ! i))
     \<and> (\<forall>f. id_name_mapper k = Some ''EMAIL_ADDRESS'' \<and>
             process_result sha384 id_name_mapper sys_entities obj col (k, data) = Inr f \<longrightarrow>
           pii_data f = mask_data ''EMAIL_ADDRESS'' data \<and> pii_hash f = sha384 data
             \<and> pii_region f = ''All'')
     \<and> (\<forall>u v. data = ''a'' @ u @ ''@'' @ v @ ''.com'' \<and> length u = 5 \<and> length v = 5
             \<and> list_all is_alnum u \<and> list_all is_alnum v \<longrightarrow>
           mask_data ''EMAIL_ADDRESS'' data = ''a*****@*****.com'')"
proof -
  define r where "r = mask_data ''EMAIL_ADDRESS'' data"
  define n where "n = length data - length (tld_of data)"
  have at: "CHR ''@'' \<in> set data" using assms(1) by (metis count_list_0_iff zero_neq_one)
  have lt: "length (tld_of data) < length data" using at by (rule tld_of_shorter)
  have ne: "data \<noteq> []" using at by auto
  have r: "r = take 1 data @ re_sub_alnum (py_slice 1 n data) @ tld_of data"
    unfolding r_def n_def using assms(1) by (rule email_address_masked_eq)
  have l1: "length (take 1 data) = 1" using ne by (cases data) auto
  have l2: "length (re_sub_alnum (py_slice 1 n data)) = n - 1"
    using lt by (simp add: re_sub_alnum_def py_slice_def n_def)
  have l3: "length (py_slice 1 n data) = n - 1"
    using lt by (simp add: py_slice_def n_def)
  have n1: "1 \<le> n" using lt by (simp add: n_def)
  have c1: "length r = length data" using l1 l2 n1 lt by (simp add: r n_def)
  have c2: "take 1 r = take 1 data" using l1 by (simp add: r)
  have c3: "drop n r = tld_of data" using l1 l2 n1 by (simp add: r)
  have c4: "\<forall>i. 1 \<le> i \<and> i < n \<longrightarrow> r ! i = (if is_alnum (data ! i) then CHR ''*'' else data ! i)"
  proof (intro allI impI)
    fix i assume "1 \<le> i \<and> i < n"
    then have i: "1 \<le> i" "i < n" "i - 1 < n - 1" by auto
    have "r ! i = (re_sub_alnum (py_slice 1 n data) @ tld_of data) ! (i - 1)"
      using i l1 by (simp add: r nth_append)
    also have "\<dots> = re_sub_alnum (py_slice 1 n data) ! (i - 1)"
      using i l2 by (simp add: nth_append)
    also have "\<dots> = mask_char (py_slice 1 n data ! (i - 1))"
      using i l3 by (simp add: re_sub_alnum_def)
    also have "py_slice 1 n data ! (i - 1) = data ! i"
      using i lt by (simp add: py_slice_def n_def)
    finally show "r ! i = (if is_alnum (data ! i) then CHR ''*'' else data ! i)"
      by (simp add: mask_char_def)
  qed
  have c5: "\<forall>f. id_name_mapper k = Some ''EMAIL_ADDRESS'' \<and>
             process_result sha384 id_name_mapper sys_entities obj col (k, data) = Inr f \<longrightarrow>
           pii_data f = r \<and> pii_hash f = sha384 data \<and> pii_region f = ''All''"
    by (auto simp: process_result_def r_def hash_data_def get_region_def)
  have c6: "\<forall>u v. data = ''a'' @ u @ ''@'' @ v @ ''.com'' \<and> length u = 5 \<and> length v = 5
             \<and> list_all is_alnum u \<and> list_all is_alnum v \<longrightarrow> r = ''a*****@*****.com''"
    unfolding r_def using email_address_masked_shape by blast
  from c1 c2 c3 c4 c5 c6 show ?thesis unfolding r_def n_def by blast
qed

text \<open>An address of the shape of the example: six characters before the at-sign, five
  between it and the dot. It is reported as \<open>a*****@*****.com\<close>, with the SHA-384 digest of
  the address itself.\<close>

theorem mask_email_address_witness:
  "count_list ''abcdef@gmail.com'' CHR ''@'' = 1
   \<and> mask_data ''EMAIL_ADDRESS'' ''abcdef@gmail.com'' = ''a*****@*****.com''
   \<and> process_result (\<lambda>s. ''sha384:'' @ s) (\<lambda>i. Some ''EMAIL_ADDRESS'')
         [''EMAIL_ADDRESS''] ''notes.txt'' None (0, ''abcdef@gmail.com'')
       = Inr \<lparr>file_name = ''notes.txt'', pii_type = ''EMAIL_ADDRESS'', pii_region = ''All'',
              is_custom_regex = False, pii_hash = ''sha384:abcdef@gmail.com'',
              pii_data = ''a*****@*****.com'', column_name = None\<rparr>"
proof -
  have h: "count_list ''abcdef@gmail.com'' CHR ''@'' = 1" by simp
  note w = mask_email_address [of "''abcdef@gmail.com''" "\<lambda>i. Some ''EMAIL_ADDRESS''" 0
      "\<lambda>s. ''sha384:'' @ s" "[''EMAIL_ADDRESS'']" "''notes.txt''" None, OF h]
  have s: "''abcdef@gmail.com'' = ''a'' @ ''bcdef'' @ ''@'' @ ''gmail'' @ ''.com''
      \<and> length ''bcdef'' = 5 \<and> length ''gmail'' = 5
      \<and> list_all is_alnum ''bcdef'' \<and> list_all is_alnum ''gmail''"
    by (simp add: is_alnum_def)
  from w s have m: "mask_data ''EMAIL_ADDRESS'' ''abcdef@gmail.com'' = ''a*****@*****.com''"
    by blast
  obtain f where f: "process_result (\<lambda>s. ''sha384:'' @ s) (\<lambda>i. Some ''EMAIL_ADDRESS'')
      [''EMAIL_ADDRESS''] ''notes.txt'' None (0, ''abcdef@gmail.com'') = Inr f"
    by (simp add: process_result_def)
  with w have p: "pii_data f = mask_data ''EMAIL_ADDRESS'' ''abcdef@gmail.com''
      \<and> pii_hash f = ''sha384:'' @ ''abcdef@gmail.com'' \<and> pii_region f = ''All''"
    by blast
  from f have "file_name f = ''notes.txt'' \<and> pii_type f = ''EMAIL_ADDRESS''
      \<and> is_custom_regex f = False \<and> column_name f = None"
    by (auto simp: process_result_def)
  with p m have "f = \<lparr>file_name = ''notes.txt'', pii_type = ''EMAIL_ADDRESS'',
      pii_region = ''All'', is_custom_regex = False, pii_hash = ''sha384:abcdef@gmail.com'',
      pii_data = ''a*****@*****.com'', column_name = None\<rparr>"
    by (cases f) simp
  with h m f show ?thesis by simp
qed

text \<open>
  Claim C10: \<open>mask_data\<close> never raises. When the entity name contains \<open>EMAIL\<close> and the
  value has more than one at-sign, the unpacking of the split raises \<open>ValueError\<close> inside
  the \<open>try\<close> block, the handler swallows it, and the value comes back unchanged, so the
  finding carries the unmasked value.
\<close>

theorem mask_data_swallows_exception:
  assumes "contains entity ''EMAIL''" and "2 \<le> count_list data CHR ''@''"
  shows "mask_data_try entity data = Inl ValueError
     \<and> mask_data entity data = data
     \<and> (\<forall>f. id_name_mapper k = Some entity \<and>
             process_result sha384 id_name_mapper sys_entities obj col (k, data) = Inr f \<longrightarrow>
           pii_data f = data)
     \<and> (\<forall>name val e. mask_data_try name val = Inl e \<longrightarrow> mask_data name val = val)"
proof -
  have g: "\<forall>name val e. mask_data_try name val = Inl e \<longrightarrow> mask_data name val = val"
    by (simp add: mask_data_on_exception)
  have t: "mask_data_try entity data = Inl ValueError"
    using assms by (rule mask_data_try_many_at)
  then have m: "mask_data entity data = data" by (rule mask_data_on_exception)
  have "\<forall>f. id_name_mapper k = Some entity \<and>
             process_result sha384 id_name_mapper sys_entities obj col (k, data) = Inr f \<longrightarrow>
           pii_data f = data"
    using m by (auto simp: process_result_def)
  with t m g show ?thesis by blast
qed

theorem mask_data_swallows_exception_witness:
  "contains ''WORK_EMAIL'' ''EMAIL'' \<and> 2 \<le> count_list ''a@b@c.org'' CHR ''@''
   \<and> mask_data_try ''WORK_EMAIL'' ''a@b@c.org'' = Inl ValueError
   \<and> mask_data ''WORK_EMAIL'' ''a@b@c.org'' = ''a@b@c.org''"
proof -
  have h1: "contains ''WORK_EMAIL'' ''EMAIL''" by simp
  have h2: "2 \<le> count_list ''a@b@c.org'' CHR ''@''" by simp
  from mask_data_swallows_exception [OF h1 h2] h1 h2 show ?thesis by blast
qed

section \<open>Retries of the control-plane client\<close>

lemma retry_step_of_make_request:
  assumes "server (requests_sent eff) req = Response status (Some b)"
    and "status = 424 \<or> 500 < status"
  shows "make_request (Suc depth) server req attempt eff =
     make_request depth server req 0
       (eff\<lparr>requests_sent := Suc (requests_sent eff), seconds_slept := Suc (seconds_slept eff)\<rparr>)"
  using assms by (auto simp: Let_def)

lemma status_500_is_returned:
  assumes "server (requests_sent eff) req = Response 500 (Some b)"
  shows "make_request (Suc depth) server req attempt eff
     = (Some b, eff\<lparr>requests_sent := Suc (requests_sent eff)\<rparr>)"
  using assms by (simp add: Let_def)

text \<open>While every answer is one that is retried, the call uses up the depth it has: it
  sends \<open>depth\<close> requests, sleeps \<open>depth\<close> seconds and returns \<open>None\<close>.\<close>

lemma make_request_gives_up:
  assumes "\<forall>i < depth. \<exists>st b. server (requests_sent eff + i) req = Response st (Some b)
      \<and> (st = 424 \<or> 500 < st)"
  shows "make_request depth server req attempt eff
     = (None, eff\<lparr>requests_sent := requests_sent eff + depth,
                   seconds_slept := seconds_slept eff + depth\<rparr>)"
  using assms
proof (induction depth arbitrary: eff attempt)
  case 0
  then show ?case by simp
next
  case (Suc depth)
  let ?eff = "eff\<lparr>requests_sent := Suc (requests_sent eff),
      seconds_slept := Suc (seconds_slept eff)\<rparr>"
  from Suc.prems obtain st b where "server (requests_sent eff) req = Response st (Some b)"
    and "st = 424 \<or> 500 < st"
    by force
  then have "make_request (Suc depth) server req attempt eff = make_request depth server req 0 ?eff"
    by (rule retry_step_of_make_request)
  moreover have "\<forall>i < depth. \<exists>st b. server (requests_sent ?eff + i) req = Response st (Some b)
      \<and> (st = 424 \<or> 500 < st)"
  proof (intro allI impI)
    fix i assume "i < depth"
    then have "Suc i < Suc depth" by simp
    with Suc.prems show "\<exists>st b. server (requests_sent ?eff + i) req = Response st (Some b)
        \<and> (st = 424 \<or> 500 < st)"
      by fastforce
  qed
  ultimately show ?case using Suc.IH [of ?eff 0] by simp
qed

text \<open>After \<open>k\<close> answers that are retried and then a 200, with room for the \<open>k + 1\<close> nested
  calls, the call returns the body of the 200, having sent \<open>k + 1\<close> requests and slept
  \<open>k\<close> seconds.\<close>

lemma make_request_retries_then_ok:
  assumes "k < depth"
    and "\<forall>i < k. \<exists>st b. server (requests_sent eff + i) req = Response st (Some b)
      \<and> (st = 424 \<or> 500 < st)"
    and "server (requests_sent eff + k) req = Response 200 (Some body)"
  shows "make_request depth server req attempt eff
     = (Some body, eff\<lparr>requests_sent := requests_sent eff + k + 1,
                        seconds_slept := seconds_slept eff + k\<rparr>)"
  using assms
proof (induction k arbitrary: depth eff attempt)
  case 0
  then obtain d where "depth = Suc d" by (cases depth) auto
  with 0 show ?case by (simp add: Let_def)
next
  case (Suc k)
  from Suc.prems(1) obtain d where d: "depth = Suc d" and kd: "k < d" by (cases depth) auto
  let ?eff = "eff\<lparr>requests_sent := Suc (requests_sent eff),
      seconds_slept := Suc (seconds_slept eff)\<rparr>"
  from Suc.prems(2) obtain st b where "server (requests_sent eff) req = Response st (Some b)"
    and "st = 424 \<or> 500 < st"
    by force
  then have "make_request (Suc d) server req attempt eff = make_request d server req 0 ?eff"
    by (rule retry_step_of_make_request)
  moreover have "\<forall>i < k. \<exists>st b. server (requests_sent ?eff + i) req = Response st (Some b)
      \<and> (st = 424 \<or> 500 < st)"
  proof (intro allI impI)
    fix i assume "i < k"
    then have "Suc i < Suc k" by simp
    with Suc.prems(2) show "\<exists>st b. server (requests_sent ?eff + i) req = Response st (Some b)
        \<and> (st = 424 \<or> 500 < st)"
      by fastforce
  qed
  moreover have "server (requests_sent ?eff + k) req = Response 200 (Some body)"
    using Suc.prems(3) by simp
  ultimately show ?case using Suc.IH [OF kd, of ?eff 0] by (simp add: d)
qed

text \<open>
  Claim C4, amended. When the answer has status 424 or a status above 500 and a body that
  decodes, the client sleeps one second and sends the same request again, with the attempt
  counter at 0, in a nested call. It goes on while such answers keep coming and the nesting
  fits the depth that Python allows: a 200 after \<open>k\<close> such answers is returned after \<open>k\<close>
  seconds of sleep, and when the depth is used up the call returns \<open>None\<close>. An answer with
  status exactly 500 is not retried: its body goes back to the caller.
\<close>

theorem make_request_retry:
  assumes "server (requests_sent eff) req = Response status (Some body)"
  shows "(status = 424 \<or> 500 < status \<longrightarrow>
            make_request (Suc depth) server req attempt eff =
              make_request depth server req 0
                (eff\<lparr>requests_sent := Suc (requests_sent eff),
                     seconds_slept := Suc (seconds_slept eff)\<rparr>))
     \<and> ((\<forall>i < depth. \<exists>st b. server (requests_sent eff + i) req = Response st (Some b)
                \<and> (st = 424 \<or> 500 < st)) \<longrightarrow>
          make_request depth server req attempt eff
            = (None, eff\<lparr>requests_sent := requests_sent eff + depth,
                          seconds_slept := seconds_slept eff + depth\<rparr>))
     \<and> (\<forall>k answer. k < depth
            \<and> (\<forall>i < k. \<exists>st b. server (requests_sent eff + i) req = Response st (Some b)
                  \<and> (st = 424 \<or> 500 < st))
            \<and> server (requests_sent eff + k) req = Response 200 (Some answer) \<longrightarrow>
          make_request depth server req attempt eff
            = (Some answer, eff\<lparr>requests_sent := requests_sent eff + k + 1,
                                 seconds_slept := seconds_slept eff + k\<rparr>))
     \<and> (status = 500 \<longrightarrow>
          make_request (Suc depth) server req attempt eff
            = (Some body, eff\<lparr>requests_sent := Suc (requests_sent eff)\<rparr>))"
proof (intro conjI impI allI)
  assume "status = 424 \<or> 500 < status"
  with assms show "make_request (Suc depth) server req attempt eff =
      make_request depth server req 0
        (eff\<lparr>requests_sent := Suc (requests_sent eff), seconds_slept := Suc (seconds_slept eff)\<rparr>)"
    by (rule retry_step_of_make_request)
next
  assume "\<forall>i < depth. \<exists>st b. server (requests_sent eff + i) req = Response st (Some b)
      \<and> (st = 424 \<or> 500 < st)"
  then show "make_request depth server req attempt eff
      = (None, eff\<lparr>requests_sent := requests_sent eff + depth,
                    seconds_slept := seconds_slept eff + depth\<rparr>)"
    by (rule make_request_gives_up)
next
  fix k answer
  assume "k < depth
      \<and> (\<forall>i < k. \<exists>st b. server (requests_sent eff + i) req = Response st (Some b)
            \<and> (st = 424 \<or> 500 < st))
      \<and> server (requests_sent eff + k) req = Response 200 (Some answer)"
  then show "make_request depth server req attempt eff
      = (Some answer, eff\<lparr>requests_sent := requests_sent eff + k + 1,
                           seconds_slept := seconds_slept eff + k\<rparr>)"
    using make_request_retries_then_ok [of k depth server eff req answer attempt] by blast
next
  assume "status = 500"
  with assms show "make_request (Suc depth) server req attempt eff
      = (Some body, eff\<lparr>requests_sent := Suc (requests_sent eff)\<rparr>)"
    using status_500_is_returned [of server eff req body depth attempt] by simp
qed

text \<open>A server that answers 503 twice and then 200 is asked three times; one that answers
  503 for ever is asked as often as the depth allows (here 3) and the caller gets \<open>None\<close>.\<close>

theorem make_request_retry_witness:
  "make_request 1000 (\<lambda>n r. if n < 2 then Response 503 (Some ''unavailable'')
                                  else Response 200 (Some ''done''))
     \<lparr>req_method = PATCH, req_url = ''customer_account/data-chunks'', req_data = ()\<rparr> 0
     \<lparr>requests_sent = 0, seconds_slept = 0, token_refreshes = 0\<rparr>
   = (Some ''done'', \<lparr>requests_sent = 3, seconds_slept = 2, token_refreshes = 0\<rparr>)
   \<and> make_request 3 (\<lambda>n r. Response 503 (Some ''unavailable''))
     \<lparr>req_method = PATCH, req_url = ''customer_account/data-chunks'', req_data = ()\<rparr> 0
     \<lparr>requests_sent = 0, seconds_slept = 0, token_refreshes = 0\<rparr>
   = (None, \<lparr>requests_sent = 3, seconds_slept = 3, token_refreshes = 0\<rparr>)"
proof -
  let ?flaky = "\<lambda>(n::nat) (r::unit request).
      if n < 2 then Response 503 (Some ''unavailable'') else Response 200 (Some ''done'')"
  let ?down = "\<lambda>(n::nat) (r::unit request). Response 503 (Some ''unavailable'')"
  let ?req = "\<lparr>req_method = PATCH, req_url = ''customer_account/data-chunks'', req_data = ()\<rparr>"
  let ?eff = "\<lparr>requests_sent = 0, seconds_slept = 0, token_refreshes = 0\<rparr>"
  have h1: "?flaky (requests_sent ?eff) ?req = Response 503 (Some ''unavailable'')" by simp
  have h2: "?down (requests_sent ?eff) ?req = Response 503 (Some ''unavailable'')" by simp
  have k: "(2::nat) < 1000
      \<and> (\<forall>i < 2. \<exists>st b. ?flaky (requests_sent ?eff + i) ?req = Response st (Some b)
            \<and> (st = 424 \<or> 500 < st))
      \<and> ?flaky (requests_sent ?eff + 2) ?req = Response 200 (Some ''done'')"
    by simp
  have d: "\<forall>i < 3. \<exists>st b. ?down (requests_sent ?eff + i) ?req = Response st (Some b)
      \<and> (st = 424 \<or> 500 < st)"
    by simp
  note t1 = make_request_retry [where server = ?flaky and eff = ?eff and req = ?req
      and status = 503 and body = "''unavailable''" and depth = 1000 and attempt = 0, OF h1]
  note t2 = make_request_retry [where server = ?down and eff = ?eff and req = ?req
      and status = 503 and body = "''unavailable''" and depth = 3 and attempt = 0, OF h2]
  from t1 k
  have a: "make_request 1000 ?flaky ?req 0 ?eff
      = (Some ''done'', ?eff\<lparr>requests_sent := requests_sent ?eff + 2 + 1,
                              seconds_slept := seconds_slept ?eff + 2\<rparr>)"
    by blast
  from t2 d
  have b: "make_request 3 ?down ?req 0 ?eff
      = (None, ?eff\<lparr>requests_sent := requests_sent ?eff + 3,
                     seconds_slept := seconds_slept ?eff + 3\<rparr>)"
    by blast
  from a b show ?thesis by simp
qed

text \<open>A server that answers 500: one request, no sleep, the body is returned.\<close>

theorem make_request_500_counterexample:
  "make_request 1000 (\<lambda>n r. Response 500 (Some ''Internal Server Error''))
     \<lparr>req_method = PATCH, req_url = ''customer_account/data-chunks'', req_data = ()\<rparr> 0
     \<lparr>requests_sent = 0, seconds_slept = 0, token_refreshes = 0\<rparr>
   = (Some ''Internal Server Error'',
      \<lparr>requests_sent = 1, seconds_slept = 0, token_refreshes = 0\<rparr>)"
proof -
  have "(1000::nat) = Suc 999" by simp
  then show ?thesis by (simp only: make_request.simps Let_def) simp
qed

section \<open>The scan of one chunk\<close>

lemma py_int_0: "py_int ''0'' = Inr 0"
  by (simp add: py_int_def is_digit_def)

lemma is_not_valid_chunk_cases:
  "is_not_valid_chunk PyNone" "is_not_valid_chunk (PyStr [])"
  "s \<noteq> [] \<Longrightarrow> \<not> is_not_valid_chunk (PyStr s)"
  "\<not> is_not_valid_chunk (PyDataFrame df)"
  by (simp_all add: is_not_valid_chunk_def dataframe_bool_method_truth_def)

lemma analyze_valid:
  assumes "oc_current_chunk content = Some chunk" "cu_offset chunk = Some off" "py_int off = Inr offset"
   "se_fetch env (oc_fetch_path content) (cu_fetch_path chunk) (cu_limit chunk) offset = Inr data"
   "\<not> is_not_valid_chunk data"
  shows "analyze_content_data env content =
    (Fetch_Data (oc_fetch_path content) (cu_fetch_path chunk) (cu_limit chunk) offset
     # Phi_Probe (oc_object_name content) data # Scan_File_Object data
     # map (Post_Sensitive_Data (cu_metadata_id chunk) (cu_id chunk)) (filter (\<lambda>batch. batch \<noteq> []) (se_scan env data))
     @ [Put_Chunk (chunk\<lparr>cu_hash := (if se_rescan_mode env then None else cu_hash chunk),
          cu_is_phi := Some (se_is_phi env (oc_object_name content) data),
          cu_scanned_at := Some (se_now env), cu_status := Some SCANNED, cu_sensitive_data := []\<rparr>)], None)"
  using assms by (simp add: analyze_content_data_def Let_def save_chunk_def)

lemma analyze_invalid:
  assumes "oc_current_chunk content = Some chunk" "cu_offset chunk = Some off" "py_int off = Inr offset"
   "se_fetch env (oc_fetch_path content) (cu_fetch_path chunk) (cu_limit chunk) offset = Inr data"
   "is_not_valid_chunk data"
  shows "analyze_content_data env content =
    ([Fetch_Data (oc_fetch_path content) (cu_fetch_path chunk) (cu_limit chunk) offset,
      Put_Chunk (chunk\<lparr>cu_scanned_at := Some (se_now env), cu_status := Some SCANNED, cu_sensitive_data := []\<rparr>)], None)"
  using assms by (simp add: analyze_content_data_def Let_def save_chunk_def)

lemma analyze_completes:
  assumes "analyze_content_data env content = (steps, None)"
  obtains chunk off offset data where "oc_current_chunk content = Some chunk" "cu_offset chunk = Some off" "py_int off = Inr offset"
   "se_fetch env (oc_fetch_path content) (cu_fetch_path chunk) (cu_limit chunk) offset = Inr data"
  using assms by (auto simp: analyze_content_data_def Let_def split: option.splits sum.splits if_splits)






text \<open>
  Claim C2 on the code: when the analysis of a chunk completes, the last request is the PUT
  of the chunk with status \<open>SCANNED\<close> and \<open>scanned_at\<close> the time of completion, as
  claimed. The hash is not set: none is computed from the fetched body, and the field
  sent is the one the chunk record carried when it was leased, or none (in rescan mode the
  field is cleared before the scan). A chunk leased without a hash is finalised without
  one.
\<close>

theorem save_chunk_finalises:
  assumes "analyze_content_data env content = (steps, None)"
    and "oc_current_chunk content = Some chunk"
  shows "\<exists>c. steps \<noteq> [] \<and> last steps = Put_Chunk c
     \<and> cu_status c = Some SCANNED \<and> cu_scanned_at c = Some (se_now env)
     \<and> (cu_hash c = cu_hash chunk \<or> cu_hash c = None)
     \<and> (\<not> se_rescan_mode env \<longrightarrow> cu_hash c = cu_hash chunk)
     \<and> (cu_hash chunk = None \<longrightarrow> cu_hash c = None)"
proof -
  from assms(1) obtain chunk' off offset data
    where c: "oc_current_chunk content = Some chunk'" and o: "cu_offset chunk' = Some off"
      and i: "py_int off = Inr offset"
      and f: "se_fetch env (oc_fetch_path content) (cu_fetch_path chunk') (cu_limit chunk') offset
                = Inr data"
    by (rule analyze_completes)
  from c assms(2) have eq: "chunk' = chunk" by simp
  show ?thesis
  proof (cases "is_not_valid_chunk data")
    case True
    from analyze_invalid [OF c o i f True] assms(1) show ?thesis by (auto simp: eq)
  next
    case False
    from analyze_valid [OF c o i f False] assms(1) show ?thesis by (auto simp: eq)
  qed
qed

text \<open>A chunk leased for its first scan has no hash. The text \<open>hello world\<close> is fetched,
  probed and classified, and the chunk is saved as \<open>SCANNED\<close> at time 42, still with no
  hash.\<close>

lemma analyze_content_data_first_scan:
  "analyze_content_data (example_env (PyStr ''hello world'') (Some (JNum 1))) example_content
     = ([Fetch_Data ''bucket/notes.txt'' (Some ''bucket/notes.txt'') (Some 1000000) 0,
         Phi_Probe ''notes.txt'' (PyStr ''hello world''),
         Scan_File_Object (PyStr ''hello world''),
         Put_Chunk (example_chunk\<lparr>cu_is_phi := Some False, cu_scanned_at := Some 42,
                                  cu_status := Some SCANNED\<rparr>)], None)"
  by (simp add: analyze_content_data_def example_env_def example_content_def
      example_chunk_def empty_chunk_update_def py_int_def is_digit_def
      is_not_valid_chunk_def save_chunk_def Let_def)

theorem save_chunk_finalises_witness:
  "cu_hash example_chunk = None
   \<and> (\<exists>c. last (fst (analyze_content_data (example_env (PyStr ''hello world'') (Some (JNum 1)))
         example_content)) = Put_Chunk c
     \<and> cu_status c = Some SCANNED \<and> cu_scanned_at c = Some 42 \<and> cu_hash c = None)"
proof -
  let ?env = "example_env (PyStr ''hello world'') (Some (JNum 1))"
  have a: "analyze_content_data ?env example_content
      = (fst (analyze_content_data ?env example_content), None)"
    by (simp add: analyze_content_data_first_scan)
  have h: "oc_current_chunk example_content = Some example_chunk"
    by (simp add: example_content_def)
  have n: "se_now ?env = 42"
    by (simp add: example_env_def)
  have e: "cu_hash example_chunk = None"
    by (simp add: example_chunk_def empty_chunk_update_def)
  from save_chunk_finalises [OF a h] n e show ?thesis by auto
qed

text \<open>
  Claim C5 on the code: a dataframe is never invalid for \<open>is_not_valid_chunk\<close>, whatever
  its cells, so a fetched dataframe, all NaN or empty, goes through the PHI probe and the
  classification.
\<close>

theorem is_not_valid_chunk_dataframe:
  assumes "oc_current_chunk content = Some chunk" and "cu_offset chunk = Some off"
    and "py_int off = Inr offset"
    and "se_fetch env (oc_fetch_path content) (cu_fetch_path chunk) (cu_limit chunk) offset
           = Inr (PyDataFrame df)"
  shows "\<not> is_not_valid_chunk (PyDataFrame df)
     \<and> Phi_Probe (oc_object_name content) (PyDataFrame df)
         \<in> set (fst (analyze_content_data env content))
     \<and> Scan_File_Object (PyDataFrame df) \<in> set (fst (analyze_content_data env content))"
proof -
  have v: "\<not> is_not_valid_chunk (PyDataFrame df)" by (rule is_not_valid_chunk_cases(4))
  from analyze_valid [OF assms v] v show ?thesis by simp
qed

theorem is_not_valid_chunk_dataframe_witness:
  "\<not> is_not_valid_chunk (PyDataFrame [(''ssn'', [NaN, NaN])])
   \<and> Phi_Probe ''notes.txt'' (PyDataFrame [(''ssn'', [NaN, NaN])])
       \<in> set (fst (analyze_content_data
            (example_env (PyDataFrame [(''ssn'', [NaN, NaN])]) (Some (JNum 1))) example_content))"
proof -
  let ?env = "example_env (PyDataFrame [(''ssn'', [NaN, NaN])]) (Some (JNum 1))"
  have h1: "oc_current_chunk example_content = Some example_chunk"
    by (simp add: example_content_def)
  have h2: "cu_offset example_chunk = Some ''0''"
    by (simp add: example_chunk_def)
  have h4: "se_fetch ?env (oc_fetch_path example_content) (cu_fetch_path example_chunk)
      (cu_limit example_chunk) 0 = Inr (PyDataFrame [(''ssn'', [NaN, NaN])])"
    by (simp add: example_env_def)
  have n: "oc_object_name example_content = ''notes.txt''"
    by (simp add: example_content_def)
  from is_not_valid_chunk_dataframe [OF h1 h2 py_int_0 h4] show ?thesis
    by (simp only: n simp_thms)
qed

text \<open>The part of the guard that works: for \<open>None\<close> and for the empty text the chunk is
  saved right after the fetch, with no probe, no classification and no findings.\<close>

lemma analyze_content_data_skips_empty:
  assumes "oc_current_chunk content = Some chunk" and "cu_offset chunk = Some off"
    and "py_int off = Inr offset"
    and "se_fetch env (oc_fetch_path content) (cu_fetch_path chunk) (cu_limit chunk) offset
           = Inr data"
    and "data = PyNone \<or> data = PyStr []"
  shows "analyze_content_data env content =
    ([Fetch_Data (oc_fetch_path content) (cu_fetch_path chunk) (cu_limit chunk) offset,
      Put_Chunk (chunk\<lparr>cu_scanned_at := Some (se_now env), cu_status := Some SCANNED,
                        cu_sensitive_data := []\<rparr>)], None)"
proof -
  from assms(5) have "is_not_valid_chunk data"
    by (auto simp: is_not_valid_chunk_cases)
  with assms(1-4) show ?thesis by (rule analyze_invalid)
qed

section \<open>Chunk plans and archives\<close>

lemma example_archive_size:
  "get_uncompressed_size ''bucket/logs.tar.gz'' example_archive = Inr 12500"
  by (simp add: example_archive_def endswith_def endswith_any_def ARCHIVE_EXTENSIONS_def)

lemma create_file_chunks_plain:
  assumes "\<not> endswith_any fetch_path CONTAINER_TYPES"
    and "\<not> endswith_any object_name UNSUPPORTED_EXTENSIONS" and "0 < sz" and "sz < 2 ^ 53"
  shows "create_file_chunks env fetch_path object_name sz =
     Inr (map (file_chunk env fetch_path) [0..<Suc ((sz - 1) div CHUNK_BYTES_CAPACITY)])"
proof -
  have "0 < CHUNK_BYTES_CAPACITY" by (simp add: CHUNK_BYTES_CAPACITY_def)
  from this assms(3,4) have "ceil_truediv sz CHUNK_BYTES_CAPACITY
      = Suc ((sz - 1) div CHUNK_BYTES_CAPACITY)"
    by (rule ceil_truediv_plan)
  with assms show ?thesis by (simp add: create_file_chunks_def)
qed

lemma file_chunks_plan:
  "is_chunk_plan CHUNK_BYTES_CAPACITY s
     (map (file_chunk env fetch_path) [0..<Suc ((s - 1) div CHUNK_BYTES_CAPACITY)])"
  by (simp add: is_chunk_plan_def file_chunk_def list_all_iff comp_def del: upt_Suc)

lemma table_chunks_plan:
  assumes "0 < L" and "0 < n" and "n < 2 ^ 53"
  shows "is_chunk_plan L n
     (map (table_chunk scanner_id object_name fetch_path L) [0..<ceil_truediv n L])"
  unfolding ceil_truediv_plan [OF assms]
  by (simp add: is_chunk_plan_def table_chunk_def list_all_iff comp_def del: upt_Suc)

lemma table_chunks_nonempty:
  assumes "0 < L" and "0 < n" and "n < 2 ^ 53"
  shows "map (table_chunk scanner_id object_name fetch_path L) [0..<ceil_truediv n L] \<noteq> []"
  unfolding ceil_truediv_plan [OF assms] by simp

lemma capacities_positive: "0 < CHUNK_ROWS_CAPACITY" "0 < CHUNK_JSON_CAPACITY"
  by (simp_all add: CHUNK_ROWS_CAPACITY_def CHUNK_JSON_CAPACITY_def)

lemma str_of_nat_0: "str_of_nat 0 = ''0''"
  by (simp add: str_of_nat.simps)

lemma str_of_nat_million: "str_of_nat 1000000 = ''1000000''"
  by (simp add: str_of_nat.simps)

lemma str_of_nat_rows: "str_of_nat 100000 = ''100000''" "str_of_nat 200000 = ''200000''"
  by (simp_all add: str_of_nat.simps)

text \<open>
  Claim C7, amended. A file of size 0 gets status \<open>SCANNED\<close> and no chunks. A file of
  size \<open>s\<close>, \<open>0 < s < 2^53\<close>, that is not an archive, not a container file and not of an
  unsupported extension gets the chunk plan for \<open>s\<close> bytes with
  \<open>L = CHUNK_BYTES_CAPACITY\<close>: the offsets \<open>0, L, 2L, \<dots>, \<lfloor>(s - 1) / L\<rfloor> L\<close>, each chunk with
  limit \<open>L\<close>. A file of an unsupported extension that is not an archive gets no chunks and
  status \<open>SCANNED\<close> whatever its size. A table of positive size with \<open>n\<close> rows,
  \<open>0 < n < 2^53\<close>, gets the chunk plan for \<open>n\<close> rows with \<open>L = CHUNK_ROWS_CAPACITY\<close>, and a
  collection with \<open>n\<close> documents the plan for \<open>n\<close> documents with
  \<open>L = CHUNK_JSON_CAPACITY\<close>; a table or collection of size 0, or with nothing in it, gets
  no chunks and status \<open>SCANNED\<close>.
\<close>

theorem collect_file_chunks_plan:
  "(oc_size content = 0 \<longrightarrow>
      collect_file_chunks env content = Some (content\<lparr>oc_status := Some SCANNED\<rparr>))
   \<and> (0 < oc_size content \<and> oc_size content < 2 ^ 53
        \<and> \<not> endswith_any (oc_fetch_path content) ARCHIVE_EXTENSIONS
        \<and> \<not> endswith_any (oc_fetch_path content) CONTAINER_TYPES
        \<and> \<not> endswith_any (oc_object_name content) UNSUPPORTED_EXTENSIONS \<longrightarrow>
      (\<exists>chunks. collect_file_chunks env content = Some (content\<lparr>oc_data_chunks := chunks\<rparr>)
         \<and> is_chunk_plan CHUNK_BYTES_CAPACITY (oc_size content) chunks))
   \<and> (0 < oc_size content
        \<and> \<not> endswith_any (oc_fetch_path content) ARCHIVE_EXTENSIONS
        \<and> endswith_any (oc_object_name content) UNSUPPORTED_EXTENSIONS \<longrightarrow>
      collect_file_chunks env content
        = Some (content\<lparr>oc_data_chunks := [], oc_status := Some SCANNED\<rparr>))
   \<and> (0 < sz \<and> 0 < n \<and> n < 2 ^ 53 \<longrightarrow>
        (\<exists>chunks. rds_create_object_chunks scanner_id (Inr n) fetch_path sz = Inr chunks
           \<and> is_chunk_plan CHUNK_ROWS_CAPACITY n chunks
           \<and> with_data_chunks table chunks = table\<lparr>oc_data_chunks := chunks\<rparr>)
      \<and> (\<exists>chunks. redshift_create_object_chunks scanner_id (Inr n) fetch_path sz = Inr chunks
           \<and> is_chunk_plan CHUNK_ROWS_CAPACITY n chunks
           \<and> with_data_chunks table chunks = table\<lparr>oc_data_chunks := chunks\<rparr>)
      \<and> (\<exists>chunks. snowflake_create_object_chunks scanner_id (Inr n) fetch_path (Some sz)
                    = Inr chunks
           \<and> is_chunk_plan CHUNK_ROWS_CAPACITY n chunks
           \<and> with_data_chunks table chunks = table\<lparr>oc_data_chunks := chunks\<rparr>)
      \<and> (\<exists>chunks. dynamodb_create_object_chunks scanner_id source sz n = chunks
           \<and> is_chunk_plan CHUNK_ROWS_CAPACITY n chunks
           \<and> with_data_chunks table chunks = table\<lparr>oc_data_chunks := chunks\<rparr>)
      \<and> (\<forall>db collection rest.
            py_split CHR ''/'' fetch_path = db # collection # rest
            \<and> count_documents collection = Inr n \<longrightarrow>
            (\<exists>chunks. documentdb_create_object_chunks scanner_id count_documents fetch_path sz
                        = Inr chunks
               \<and> is_chunk_plan CHUNK_JSON_CAPACITY n chunks
               \<and> with_data_chunks table chunks = table\<lparr>oc_data_chunks := chunks\<rparr>)))
   \<and> (rds_create_object_chunks scanner_id count_rows fetch_path 0 = Inr []
        \<and> redshift_create_object_chunks scanner_id count_rows fetch_path 0 = Inr []
        \<and> snowflake_create_object_chunks scanner_id count_rows fetch_path (Some 0) = Inr []
        \<and> snowflake_create_object_chunks scanner_id count_rows fetch_path None = Inr []
        \<and> dynamodb_create_object_chunks scanner_id source 0 n = []
        \<and> documentdb_create_object_chunks scanner_id count_documents fetch_path 0 = Inr []
        \<and> rds_create_object_chunks scanner_id (Inr 0) fetch_path sz = Inr []
        \<and> redshift_create_object_chunks scanner_id (Inr 0) fetch_path sz = Inr []
        \<and> snowflake_create_object_chunks scanner_id (Inr 0) fetch_path (Some sz) = Inr []
        \<and> dynamodb_create_object_chunks scanner_id source sz 0 = []
        \<and> (\<forall>db collection rest.
              py_split CHR ''/'' fetch_path = db # collection # rest
              \<and> count_documents collection = Inr 0 \<longrightarrow>
              documentdb_create_object_chunks scanner_id count_documents fetch_path sz = Inr [])
        \<and> with_data_chunks table []
            = table\<lparr>oc_data_chunks := [], oc_status := Some SCANNED\<rparr>)"
proof (intro conjI impI allI)
  assume "oc_size content = 0"
  then show "collect_file_chunks env content = Some (content\<lparr>oc_status := Some SCANNED\<rparr>)"
    by (simp add: collect_file_chunks_def)
next
  assume a: "0 < oc_size content \<and> oc_size content < 2 ^ 53
        \<and> \<not> endswith_any (oc_fetch_path content) ARCHIVE_EXTENSIONS
        \<and> \<not> endswith_any (oc_fetch_path content) CONTAINER_TYPES
        \<and> \<not> endswith_any (oc_object_name content) UNSUPPORTED_EXTENSIONS"
  let ?chunks = "map (file_chunk env (oc_fetch_path content))
      [0..<Suc ((oc_size content - 1) div CHUNK_BYTES_CAPACITY)]"
  from a have c: "create_file_chunks env (oc_fetch_path content) (oc_object_name content)
      (oc_size content) = Inr ?chunks"
    by (intro create_file_chunks_plain) simp_all
  have ne: "?chunks \<noteq> []" by simp
  have 1: "collect_file_chunks env content = Some (content\<lparr>oc_data_chunks := ?chunks\<rparr>)"
    using a ne by (simp add: collect_file_chunks_def c del: upt_Suc)
  have 2: "is_chunk_plan CHUNK_BYTES_CAPACITY (oc_size content) ?chunks"
    by (rule file_chunks_plan)
  from 1 2 show "\<exists>chunks. collect_file_chunks env content
        = Some (content\<lparr>oc_data_chunks := chunks\<rparr>)
      \<and> is_chunk_plan CHUNK_BYTES_CAPACITY (oc_size content) chunks"
    by blast
next
  assume "0 < oc_size content
        \<and> \<not> endswith_any (oc_fetch_path content) ARCHIVE_EXTENSIONS
        \<and> endswith_any (oc_object_name content) UNSUPPORTED_EXTENSIONS"
  then show "collect_file_chunks env content
      = Some (content\<lparr>oc_data_chunks := [], oc_status := Some SCANNED\<rparr>)"
    by (simp add: collect_file_chunks_def create_file_chunks_def)
next
  assume a: "0 < sz \<and> 0 < n \<and> n < 2 ^ 53"
  let ?rows = "map (table_chunk scanner_id (rsplit_last ''.'' fetch_path) fetch_path
      CHUNK_ROWS_CAPACITY) [0..<ceil_truediv n CHUNK_ROWS_CAPACITY]"
  from a have n: "0 < n" "n < 2 ^ 53" by blast+
  have p: "is_chunk_plan CHUNK_ROWS_CAPACITY n ?rows"
    by (rule table_chunks_plan [OF capacities_positive(1) n])
  have ne: "?rows \<noteq> []"
    by (rule table_chunks_nonempty [OF capacities_positive(1) n])
  from ne have w: "with_data_chunks table ?rows = table\<lparr>oc_data_chunks := ?rows\<rparr>"
    by (simp add: with_data_chunks_def)
  from a have "rds_create_object_chunks scanner_id (Inr n) fetch_path sz = Inr ?rows"
    by (simp add: rds_create_object_chunks_def)
  with p w show "\<exists>chunks. rds_create_object_chunks scanner_id (Inr n) fetch_path sz = Inr chunks
      \<and> is_chunk_plan CHUNK_ROWS_CAPACITY n chunks
      \<and> with_data_chunks table chunks = table\<lparr>oc_data_chunks := chunks\<rparr>"
    by blast
  from a have "redshift_create_object_chunks scanner_id (Inr n) fetch_path sz = Inr ?rows"
    by (simp add: redshift_create_object_chunks_def)
  with p w show "\<exists>chunks. redshift_create_object_chunks scanner_id (Inr n) fetch_path sz
        = Inr chunks
      \<and> is_chunk_plan CHUNK_ROWS_CAPACITY n chunks
      \<and> with_data_chunks table chunks = table\<lparr>oc_data_chunks := chunks\<rparr>"
    by blast
  from a have "snowflake_create_object_chunks scanner_id (Inr n) fetch_path (Some sz) = Inr ?rows"
    by (simp add: snowflake_create_object_chunks_def)
  with p w show "\<exists>chunks. snowflake_create_object_chunks scanner_id (Inr n) fetch_path (Some sz)
        = Inr chunks
      \<and> is_chunk_plan CHUNK_ROWS_CAPACITY n chunks
      \<and> with_data_chunks table chunks = table\<lparr>oc_data_chunks := chunks\<rparr>"
    by blast
  let ?items = "map (table_chunk scanner_id source source CHUNK_ROWS_CAPACITY)
      [0..<ceil_truediv n CHUNK_ROWS_CAPACITY]"
  have pi: "is_chunk_plan CHUNK_ROWS_CAPACITY n ?items"
    by (rule table_chunks_plan [OF capacities_positive(1) n])
  have nei: "?items \<noteq> []"
    by (rule table_chunks_nonempty [OF capacities_positive(1) n])
  from nei have wi: "with_data_chunks table ?items = table\<lparr>oc_data_chunks := ?items\<rparr>"
    by (simp add: with_data_chunks_def)
  from a have "dynamodb_create_object_chunks scanner_id source sz n = ?items"
    by (simp add: dynamodb_create_object_chunks_def)
  with pi wi show "\<exists>chunks. dynamodb_create_object_chunks scanner_id source sz n = chunks
      \<and> is_chunk_plan CHUNK_ROWS_CAPACITY n chunks
      \<and> with_data_chunks table chunks = table\<lparr>oc_data_chunks := chunks\<rparr>"
    by blast
  fix db collection rest
  assume d: "py_split CHR ''/'' fetch_path = db # collection # rest
      \<and> count_documents collection = Inr n"
  let ?docs = "map (table_chunk scanner_id fetch_path fetch_path CHUNK_JSON_CAPACITY)
      [0..<ceil_truediv n CHUNK_JSON_CAPACITY]"
  have pd: "is_chunk_plan CHUNK_JSON_CAPACITY n ?docs"
    by (rule table_chunks_plan [OF capacities_positive(2) n])
  have ned: "?docs \<noteq> []"
    by (rule table_chunks_nonempty [OF capacities_positive(2) n])
  from ned have wd: "with_data_chunks table ?docs = table\<lparr>oc_data_chunks := ?docs\<rparr>"
    by (simp add: with_data_chunks_def)
  from a d have "documentdb_create_object_chunks scanner_id count_documents fetch_path sz
      = Inr ?docs"
    by (simp add: documentdb_create_object_chunks_def)
  with pd wd show "\<exists>chunks. documentdb_create_object_chunks scanner_id count_documents
        fetch_path sz = Inr chunks
      \<and> is_chunk_plan CHUNK_JSON_CAPACITY n chunks
      \<and> with_data_chunks table chunks = table\<lparr>oc_data_chunks := chunks\<rparr>"
    by blast
qed (simp_all add: rds_create_object_chunks_def redshift_create_object_chunks_def
    snowflake_create_object_chunks_def dynamodb_create_object_chunks_def
    documentdb_create_object_chunks_def with_data_chunks_def ceil_truediv_0
    capacities_positive)

text \<open>An empty file, files of 1\,000\,000 and of 1\,200\,000 bytes, and a DynamoDB table of
  4096 bytes with 250\,000 items.\<close>

theorem collect_file_chunks_plan_witness:
  "collect_file_chunks (example_file_env (\<lambda>p. None) 50000000) (discovered ''empty.txt'' 0)
     = Some ((discovered ''empty.txt'' 0)\<lparr>oc_status := Some SCANNED\<rparr>)
   \<and> (\<exists>chunks. collect_file_chunks (example_file_env (\<lambda>p. None) 50000000)
                  (discovered ''notes.txt'' 1000000)
               = Some ((discovered ''notes.txt'' 1000000)\<lparr>oc_data_chunks := chunks\<rparr>)
        \<and> map dc_offset chunks = [Some ''0''])
   \<and> (\<exists>chunks. collect_file_chunks (example_file_env (\<lambda>p. None) 50000000)
                  (discovered ''notes.txt'' 1200000)
               = Some ((discovered ''notes.txt'' 1200000)\<lparr>oc_data_chunks := chunks\<rparr>)
        \<and> map dc_offset chunks = [Some ''0'', Some ''1000000''])
   \<and> map dc_offset (dynamodb_create_object_chunks ''i-0abc'' ''orders'' 4096 250000)
       = [Some ''0'', Some ''100000'', Some ''200000'']"
proof -
  let ?env = "example_file_env (\<lambda>p. None) 50000000"
  have z: "oc_size (discovered ''empty.txt'' 0) = 0" by (simp add: discovered_def)
  have p: "0 < oc_size (discovered ''notes.txt'' n) \<and> oc_size (discovered ''notes.txt'' n) < 2 ^ 53
        \<and> \<not> endswith_any (oc_fetch_path (discovered ''notes.txt'' n)) ARCHIVE_EXTENSIONS
        \<and> \<not> endswith_any (oc_fetch_path (discovered ''notes.txt'' n)) CONTAINER_TYPES
        \<and> \<not> endswith_any (oc_object_name (discovered ''notes.txt'' n)) UNSUPPORTED_EXTENSIONS"
    if "0 < n" "n < 2 ^ 53" for n
    using that
    by (simp add: discovered_def endswith_any_def endswith_def ARCHIVE_EXTENSIONS_def
        CONTAINER_TYPES_def UNSUPPORTED_EXTENSIONS_def)
  have s1: "oc_size (discovered ''notes.txt'' 1000000) = 1000000"
    and s2: "oc_size (discovered ''notes.txt'' 1200000) = 1200000"
    by (simp_all add: discovered_def)
  have d1: "[0..<Suc ((1000000 - 1) div CHUNK_BYTES_CAPACITY)] = [0]"
    by (simp add: CHUNK_BYTES_CAPACITY_def)
  have d2: "[0..<Suc ((1200000 - 1) div CHUNK_BYTES_CAPACITY)] = [0, 1]"
    by (simp add: CHUNK_BYTES_CAPACITY_def upt_rec)
  have d3: "[0..<Suc ((250000 - 1) div CHUNK_ROWS_CAPACITY)] = [0, 1, 2]"
    by (simp add: CHUNK_ROWS_CAPACITY_def upt_rec)
  have o: "str_of_nat 0 = ''0''" "str_of_nat CHUNK_BYTES_CAPACITY = ''1000000''"
    "str_of_nat CHUNK_ROWS_CAPACITY = ''100000''"
    "str_of_nat (2 * CHUNK_ROWS_CAPACITY) = ''200000''"
    by (simp_all add: CHUNK_BYTES_CAPACITY_def CHUNK_ROWS_CAPACITY_def str_of_nat_0
        str_of_nat_million str_of_nat_rows)
  from collect_file_chunks_plan [where content = "discovered ''empty.txt'' 0" and env = ?env] z
  have a: "collect_file_chunks ?env (discovered ''empty.txt'' 0)
     = Some ((discovered ''empty.txt'' 0)\<lparr>oc_status := Some SCANNED\<rparr>)"
    by blast
  from collect_file_chunks_plan [where content = "discovered ''notes.txt'' 1000000"
      and env = ?env] p [of 1000000]
  have "\<exists>chunks. collect_file_chunks ?env (discovered ''notes.txt'' 1000000)
               = Some ((discovered ''notes.txt'' 1000000)\<lparr>oc_data_chunks := chunks\<rparr>)
        \<and> is_chunk_plan CHUNK_BYTES_CAPACITY (oc_size (discovered ''notes.txt'' 1000000)) chunks"
    by simp
  then have b: "\<exists>chunks. collect_file_chunks ?env (discovered ''notes.txt'' 1000000)
               = Some ((discovered ''notes.txt'' 1000000)\<lparr>oc_data_chunks := chunks\<rparr>)
        \<and> map dc_offset chunks = [Some ''0'']"
    unfolding is_chunk_plan_def s1 d1 by (auto simp: o)
  from collect_file_chunks_plan [where content = "discovered ''notes.txt'' 1200000"
      and env = ?env] p [of 1200000]
  have "\<exists>chunks. collect_file_chunks ?env (discovered ''notes.txt'' 1200000)
               = Some ((discovered ''notes.txt'' 1200000)\<lparr>oc_data_chunks := chunks\<rparr>)
        \<and> is_chunk_plan CHUNK_BYTES_CAPACITY (oc_size (discovered ''notes.txt'' 1200000)) chunks"
    by simp
  then have c: "\<exists>chunks. collect_file_chunks ?env (discovered ''notes.txt'' 1200000)
               = Some ((discovered ''notes.txt'' 1200000)\<lparr>oc_data_chunks := chunks\<rparr>)
        \<and> map dc_offset chunks = [Some ''0'', Some ''1000000'']"
    unfolding is_chunk_plan_def s2 d2 by (auto simp: o)
  have "(0::nat) < 4096 \<and> (0::nat) < 250000 \<and> (250000::nat) < 2 ^ 53" by simp
  with collect_file_chunks_plan [where sz = 4096 and n = 250000 and scanner_id = "''i-0abc''"
      and source = "''orders''"]
  have "is_chunk_plan CHUNK_ROWS_CAPACITY 250000
      (dynamodb_create_object_chunks ''i-0abc'' ''orders'' 4096 250000)"
    by blast
  then have d: "map dc_offset (dynamodb_create_object_chunks ''i-0abc'' ''orders'' 4096 250000)
      = [Some ''0'', Some ''100000'', Some ''200000'']"
    unfolding is_chunk_plan_def d3 by (simp add: o)
  from a b c d show ?thesis by blast
qed

text \<open>A picture of 5 bytes: its size is positive, it gets no chunk and status
  \<open>SCANNED\<close>. A DynamoDB table of 250\,000 bytes with 3 items: one chunk, at offset 0,
  where the sizes \<open>0, 100000, 200000\<close> would be the offsets of a plan over its size.\<close>

theorem collect_file_chunks_unsupported_counterexample:
  "0 < oc_size (discovered ''logo.png'' 5)
   \<and> collect_file_chunks (example_file_env (\<lambda>p. None) 50000000) (discovered ''logo.png'' 5)
     = Some ((discovered ''logo.png'' 5)\<lparr>oc_data_chunks := [], oc_status := Some SCANNED\<rparr>)
   \<and> map dc_offset (dynamodb_create_object_chunks ''i-0abc'' ''orders'' 250000 3) = [Some ''0'']"
  by (simp add: collect_file_chunks_def create_file_chunks_def discovered_def
      endswith_any_def endswith_def ARCHIVE_EXTENSIONS_def UNSUPPORTED_EXTENSIONS_def
      dynamodb_create_object_chunks_def ceil_truediv_def CHUNK_ROWS_CAPACITY_def
      table_chunk_def str_of_nat_0)

text \<open>
  Claim C6, amended: for an archive of positive size, the status becomes \<open>SKIPPED\<close> (and
  no chunk is made) when the size of the archive itself is at least the free disk space
  sampled at start-up. Otherwise, when the uncompressed total, nested archives included,
  is at least the free disk space, \<open>collect_file_chunks\<close> returns \<open>None\<close>: the object is left
  out of this discovery, with no chunks and no status set.
\<close>

theorem collect_file_chunks_archive:
  assumes "endswith_any (oc_fetch_path content) ARCHIVE_EXTENSIONS" and "0 < oc_size content"
  shows "(fe_initial_disk_space env \<le> oc_size content \<longrightarrow>
            collect_file_chunks env content = Some (content\<lparr>oc_status := Some SKIPPED\<rparr>))
     \<and> (oc_size content < fe_initial_disk_space env
          \<and> fe_read_data env (oc_fetch_path content) = Some object_data
          \<and> get_uncompressed_size (oc_full_path content) object_data = Inr uncompressed
          \<and> fe_free_disk env \<le> uncompressed \<longrightarrow>
            collect_file_chunks env content = None)"
  using assms
  by (auto simp: collect_file_chunks_def check_archive_memory_cost_def check_archive_size_def)

theorem collect_file_chunks_archive_witness:
  "collect_file_chunks (example_file_env (\<lambda>p. Some example_archive) 10000)
     (discovered ''logs.tar.gz'' 20000)
     = Some ((discovered ''logs.tar.gz'' 20000)\<lparr>oc_status := Some SKIPPED\<rparr>)
   \<and> collect_file_chunks (example_file_env (\<lambda>p. Some example_archive) 10000)
     (discovered ''logs.tar.gz'' 1000) = None"
proof -
  let ?env = "example_file_env (\<lambda>p. Some example_archive) 10000"
  have a: "endswith_any (oc_fetch_path (discovered ''logs.tar.gz'' n)) ARCHIVE_EXTENSIONS" for n
    by (simp add: discovered_def endswith_any_def endswith_def ARCHIVE_EXTENSIONS_def)
  have e: "fe_initial_disk_space ?env = 10000" "fe_free_disk ?env = 10000"
    "fe_read_data ?env (oc_fetch_path (discovered ''logs.tar.gz'' 1000)) = Some example_archive"
    by (simp_all add: example_file_env_def)
  have s: "oc_size (discovered ''logs.tar.gz'' 20000) = 20000"
    "oc_size (discovered ''logs.tar.gz'' 1000) = 1000"
    "oc_full_path (discovered ''logs.tar.gz'' 1000) = ''bucket/logs.tar.gz''"
    by (simp_all add: discovered_def)
  have 1: "collect_file_chunks ?env (discovered ''logs.tar.gz'' 20000)
     = Some ((discovered ''logs.tar.gz'' 20000)\<lparr>oc_status := Some SKIPPED\<rparr>)"
    using collect_file_chunks_archive [OF a [of 20000], of ?env] by (simp add: e s)
  have 2: "collect_file_chunks ?env (discovered ''logs.tar.gz'' 1000) = None"
    using collect_file_chunks_archive [OF a [of 1000], of ?env example_archive 12500]
    by (simp add: e s example_archive_size)
  from 1 2 show ?thesis by blast
qed

text \<open>The archive of 1000 bytes that unpacks to 12500 bytes, with 10000 bytes free: the
  result is \<open>None\<close>, not the object with status \<open>SKIPPED\<close>.\<close>

theorem collect_file_chunks_archive_counterexample:
  "get_uncompressed_size ''bucket/logs.tar.gz'' example_archive = Inr 12500
   \<and> collect_file_chunks (example_file_env (\<lambda>p. Some example_archive) 10000)
       (discovered ''logs.tar.gz'' 1000) = None"
  by (simp add: collect_file_chunks_def check_archive_memory_cost_def check_archive_size_def
      example_file_env_def discovered_def example_archive_def
      endswith_any_def endswith_def ARCHIVE_EXTENSIONS_def)

section \<open>The source diff\<close>































lemma str_of_nat_offsets: "str_of_nat 0 = ''0''" "str_of_nat 1000000 = ''1000000''"
  by (simp_all add: str_of_nat.simps)



lemma example_source_chunk_keys:
  "source_chunk_keys example_diff_env [] (example_object 1300000)
     (oc_data_chunks (example_object 1300000))
   = ([Fetch_Data ''big.bin'' (Some ''big.bin'') (Some 1000000) 0,
       Fetch_Data ''big.bin'' (Some ''big.bin'') (Some 1000000) 1000000],
      Inr [''bucket/big.bin,0,sha:first'', ''bucket/big.bin,1000000,sha:changed''])"
  by (simp add: example_object_def example_source_chunk_def example_diff_env_def py_str_opt_def
      CHUNK_BYTES_CAPACITY_def str_of_nat_offsets py_int_def is_digit_def chunk_key_def
      hash_data_def)

lemma example_metadata_chunk_dict:
  "metadata_chunk_dict [] (example_recorded\<lparr>fm_file_size := 1300000\<rparr>) =
     [(''bucket/big.bin,0,sha:first'', ''c-0,m-1''),
      (''bucket/big.bin,1000000,sha:second'', ''c-1,m-1'')]"
  by (simp add: metadata_chunk_dict_def example_recorded_def py_dict_def chunk_key_def
      py_str_opt_def)

lemma example_update:
  "update_metadata_existing_chunks example_diff_env
     [''bucket/big.bin,0,sha:first'', ''bucket/big.bin,1000000,sha:changed'']
     (example_recorded\<lparr>fm_file_size := 1300000\<rparr>)
     [(''bucket/big.bin,0,sha:first'', ''c-0,m-1''),
      (''bucket/big.bin,1000000,sha:second'', ''c-1,m-1'')]
   = ([Patch_Chunks_Batch ''m-1'' [''c-1'']
         \<lparr>up_object_size = 1300000, up_scanned_at = None, up_instance_id = ''i-0abc'',
          up_labels = None, up_hash = None, up_status = WAIT_FOR_SCAN\<rparr>],
      [''bucket/big.bin,1000000,sha:second''])"
  by (simp add: update_metadata_existing_chunks_def example_recorded_def example_diff_env_def)

lemma example_create:
  "create_newly_added_chunks
     [''bucket/big.bin,0,sha:first'', ''bucket/big.bin,1000000,sha:changed'']
     [(''bucket/big.bin,0,sha:first'', ''c-0,m-1''),
      (''bucket/big.bin,1000000,sha:second'', ''c-1,m-1'')]
     (example_recorded\<lparr>fm_file_size := 1300000\<rparr>) (example_object 1300000)
     [''bucket/big.bin,1000000,sha:second''] = []"
  by (simp add: create_newly_added_chunks_def key_offset_def example_object_def
      example_source_chunk_def CHUNK_BYTES_CAPACITY_def str_of_nat_offsets)

lemma example_diff_object:
  "diff_object example_diff_env [] (example_object 1300000)
     (example_recorded\<lparr>fm_file_size := 1300000\<rparr>) =
   ([Fetch_Data ''big.bin'' (Some ''big.bin'') (Some 1000000) 0,
     Fetch_Data ''big.bin'' (Some ''big.bin'') (Some 1000000) 1000000,
     Patch_Chunks_Batch ''m-1'' [''c-1'']
       \<lparr>up_object_size = 1300000, up_scanned_at = None, up_instance_id = ''i-0abc'',
        up_labels = None, up_hash = None, up_status = WAIT_FOR_SCAN\<rparr>], None)"
  by (simp add: diff_object_def example_source_chunk_keys example_metadata_chunk_dict
      example_update example_create)




lemma remove_deleted_files_grown_example:
  "remove_deleted_files_from_db example_diff_env example_stored [example_object 1300000] =
   ([Fetch_Data ''big.bin'' (Some ''big.bin'') (Some 1000000) 0,
     Fetch_Data ''big.bin'' (Some ''big.bin'') (Some 1000000) 1000000,
     Patch_Chunks_Batch ''m-1'' [''c-1'']
       \<lparr>up_object_size = 1300000, up_scanned_at = None, up_instance_id = ''i-0abc'',
        up_labels = None, up_hash = None, up_status = WAIT_FOR_SCAN\<rparr>], None)"
proof -
  have m: "remove_deleted_metadata example_stored [example_object 1300000] = ([], example_stored)"
    by (simp add: remove_deleted_metadata_def example_stored_def example_recorded_def
        example_object_def py_dict_def Let_def)
  have c: "remove_deleted_chunks example_stored [example_object 1300000]
      = ([], [], example_stored)"
    by (simp add: remove_deleted_chunks_def example_stored_def example_recorded_def
        example_object_def example_source_chunk_def CHUNK_BYTES_CAPACITY_def
        str_of_nat_offsets py_dict_def py_str_opt_def Let_def)
  have d: "py_dict (map (\<lambda>m. (fm_file_full_path m, m)) example_stored)
      = [(''bucket/big.bin'', example_recorded)]"
    by (simp add: py_dict_def example_stored_def example_recorded_def)
  have o: "py_dict [((oc_full_path (example_object 1300000), oc_size (example_object 1300000)),
        example_object 1300000)]
      = [((''bucket/big.bin'', 1300000), example_object 1300000)]"
    by (simp add: py_dict_def example_object_def)
  have s: "fm_file_size example_recorded = 1200000" by (simp add: example_recorded_def)
  have ne: "example_stored \<noteq> []" by (simp add: example_stored_def)
  show ?thesis
    by (simp add: remove_deleted_files_from_db_def ne m c d o s example_diff_object Let_def)
qed

end
